theory Spec2Isabelle
  imports Main "HOL-Library.Sublist"
begin

section \<open>Errors\<close>

text \<open>
  Exceptions are values.  A formatted message (a Python f-string) is kept as its
  fragments: the literal text and the tensor shapes interpolated into it, in order.
  A bare \<^verbatim>\<open>raise ValueError\<close> carries no fragment at all.  \<open>Raised n\<close> stands for
  any other exception that an abstract collaborator (a constituent model, a wrapped
  builder) may raise.
\<close>

type_synonym tag = string

datatype frag = Txt string | Shp "nat list"

datatype error =
    KeyError tag
  | ValueError "frag list"
  | IndexError
  | InvalidArgumentError
  | Raised nat

section \<open>Tensors and the two TensorFlow operations the stack uses\<close>

text \<open>
  A tensor is its shape and its elements in row-major order, as TensorFlow stores it.
  The element type is a parameter.  \<open>tf_split\<close> and \<open>tf_concat\<close> follow the documented
  behaviour of \<^verbatim>\<open>tf.split(value, size_splits, axis=-1)\<close> and
  \<^verbatim>\<open>tf.concat(values, axis)\<close>; both are library code that the repository calls.
\<close>

record 'a tensor =
  shape :: "nat list"
  elems :: "'a list"

definition wf_tensor :: "'a tensor \<Rightarrow> bool" where
  "wf_tensor t = (length (elems t) = prod_list (shape t))"

text \<open>\<open>chop n w xs\<close>: the first \<open>n\<close> consecutive blocks of \<open>w\<close> elements of \<open>xs\<close>.\<close>

fun chop :: "nat \<Rightarrow> nat \<Rightarrow> 'a list \<Rightarrow> 'a list list" where
  "chop 0 w xs = []"
| "chop (Suc n) w xs = take w xs # chop n w (drop w xs)"

text \<open>Every row is cut into consecutive pieces of the given sizes; piece \<open>i\<close> of all rows
  is the data of result \<open>i\<close>.\<close>

fun split_rows :: "nat list \<Rightarrow> 'a list list \<Rightarrow> 'a list list list" where
  "split_rows [] rows = []"
| "split_rows (e # es) rows = map (take e) rows # split_rows es (map (drop e) rows)"

text \<open>Block \<open>o\<close> of the result is block \<open>o\<close> of the first tensor, followed by block \<open>o\<close> of the
  second, and so on.\<close>

fun zip_append :: "nat \<Rightarrow> 'a list list list \<Rightarrow> 'a list list" where
  "zip_append n [] = replicate n []"
| "zip_append n (rows # rest) = map2 (@) rows (zip_append n rest)"

text \<open>
  \<^verbatim>\<open>tf.split(v, size_splits, axis=-1)\<close> with a list of sizes.  The sizes are integers as the
  caller gave them.  The operation fails on a scalar and on an empty list.  A single size
  must be the trailing dimension itself, and the tensor is returned as it is.  Otherwise
  at most one size may be \<open>-1\<close>, which stands for the rest: without a \<open>-1\<close> the sizes must
  add up to the trailing dimension, with one the other sizes must not exceed it, and after
  the \<open>-1\<close> is replaced by what remains no size may be negative.
\<close>

definition tf_split :: "'a tensor \<Rightarrow> int list \<Rightarrow> error + 'a tensor list" where
  "tf_split v size_splits =
     (if size_splits = [] \<or> shape v = [] then Inl InvalidArgumentError
      else
        let lead = butlast (shape v); w = last (shape v) in
        if length size_splits = 1 then
          (if hd size_splits = int w then Inr [v] else Inl InvalidArgumentError)
        else
          let negs = count_list size_splits (- 1);
              determined = sum_list (filter (\<lambda>e. e \<noteq> - 1) size_splits)
          in
          if 1 < negs then Inl InvalidArgumentError
          else if \<not> ((negs = 0 \<and> determined = int w) \<or> (negs = 1 \<and> determined \<le> int w))
          then Inl InvalidArgumentError
          else
            let sizes = map (\<lambda>e. if e = - 1 then int w - determined else e) size_splits in
            if list_ex (\<lambda>e. e < 0) sizes then Inl InvalidArgumentError
            else Inr (map2 (\<lambda>e rows. \<lparr>shape = lead @ [e], elems = concat rows\<rparr>)
                        (map nat sizes)
                        (split_rows (map nat sizes) (chop (prod_list lead) w (elems v)))))"

text \<open>\<^verbatim>\<open>tf.concat(values, axis)\<close>: a negative axis counts from the end; a list of one
  tensor is returned as it is; otherwise all tensors must have the same rank and agree on
  every dimension but the one concatenated.\<close>

definition tf_concat :: "'a tensor list \<Rightarrow> int \<Rightarrow> error + 'a tensor" where
  "tf_concat values axis =
     (case values of
        [] \<Rightarrow> Inl InvalidArgumentError
      | [v] \<Rightarrow> Inr v
      | v # _ \<Rightarrow>
          let r = length (shape v);
              a = (if axis < 0 then axis + int r else axis)
          in
          if a < 0 \<or> int r \<le> a then Inl InvalidArgumentError
          else
            let k = nat a;
                outer = take k (shape v);
                inner = drop (Suc k) (shape v)
            in
            if list_all (\<lambda>t. length (shape t) = r \<and> take k (shape t) = outer
                              \<and> drop (Suc k) (shape t) = inner) values
            then Inr \<lparr>shape = outer @ [sum_list (map (\<lambda>t. shape t ! k) values)] @ inner,
                      elems = concat (zip_append (prod_list outer)
                                (map (\<lambda>t. chop (prod_list outer) (shape t ! k * prod_list inner) (elems t))
                                     values))\<rparr>
            else Inl InvalidArgumentError)"

text \<open>The spec's words for what a constituent receives: the columns \<open>[lo, hi)\<close> of the
  trailing axis, all leading axes untouched (\<^verbatim>\<open>t[..., lo:hi]\<close>).\<close>

definition slice_cols :: "'a tensor \<Rightarrow> nat \<Rightarrow> nat \<Rightarrow> 'a tensor" where
  "slice_cols t lo hi =
     \<lparr>shape = butlast (shape t) @ [hi - lo],
      elems = concat (map (\<lambda>row. take (hi - lo) (drop lo row))
                (chop (prod_list (butlast (shape t))) (last (shape t)) (elems t)))\<rparr>"

text \<open>The spec's words for the other reading of "stacking along a new leading axis"
  (\<^verbatim>\<open>tf.stack(values, axis=0)\<close>): all shapes must be equal and the result has one more
  axis, in front.\<close>

definition stack_new_axis :: "'a tensor list \<Rightarrow> error + 'a tensor" where
  "stack_new_axis values =
     (case values of
        [] \<Rightarrow> Inl InvalidArgumentError
      | v # _ \<Rightarrow>
          if list_all (\<lambda>t. shape t = shape v) values
          then Inr \<lparr>shape = length values # shape v, elems = concat (map elems values)\<rparr>
          else Inl InvalidArgumentError)"

section \<open>Datasets\<close>

text \<open>
  Modelled from the spec: the class \<^verbatim>\<open>Dataset\<close> (module \<^verbatim>\<open>trieste.data\<close>) is imported by the
  sources but not among them.  The spec gives it as an immutable pair of query points and
  observations; this is the pair.
\<close>

record 'a Dataset =
  query_points :: "'a tensor"
  observations :: "'a tensor"

section \<open>Model stack\<close>

text \<open>
  Constituent models are objects with state of their own, and a stack holds references
  to them (the same object may be referenced twice).  The store maps a reference to the
  object's state; the method table gives what each method does to a state.  The dynamic
  class of an object is part of its state, so one table serves all objects.  A mutating
  method returns the exception it raised, if any, with the state it left behind.
\<close>

type_synonym ref = nat

record ('s, 'a) model_class =
  predict :: "'s \<Rightarrow> 'a tensor \<Rightarrow> error + ('a tensor \<times> 'a tensor)"
  predict_joint :: "'s \<Rightarrow> 'a tensor \<Rightarrow> error + ('a tensor \<times> 'a tensor)"
  update :: "'s \<Rightarrow> 'a Dataset \<Rightarrow> error option \<times> 's"
  optimize :: "'s \<Rightarrow> 'a Dataset \<Rightarrow> error option \<times> 's"

text \<open>The event sizes are the integers the caller passed; the constructor checks nothing.\<close>

record ModelStack =
  stack_models :: "ref list"
  stack_event_sizes :: "int list"

text \<open>\<^verbatim>\<open>self._models, self._event_sizes = zip(*(model_with_event_size,) + models_with_event_sizes)\<close>\<close>

definition ModelStack_init :: "ref \<times> int \<Rightarrow> (ref \<times> int) list \<Rightarrow> ModelStack" where
  "ModelStack_init model_with_event_size models_with_event_sizes =
     (let pairs = model_with_event_size # models_with_event_sizes
      in \<lparr>stack_models = map fst pairs, stack_event_sizes = map snd pairs\<rparr>)"

text \<open>A list comprehension whose body may raise: the first exception ends it.\<close>

fun collect :: "('x \<Rightarrow> error + 'y) \<Rightarrow> 'x list \<Rightarrow> error + 'y list" where
  "collect f [] = Inr []"
| "collect f (x # xs) =
     (case f x of
        Inl e \<Rightarrow> Inl e
      | Inr y \<Rightarrow> (case collect f xs of Inl e \<Rightarrow> Inl e | Inr ys \<Rightarrow> Inr (y # ys)))"

definition ModelStack_predict ::
  "('s, 'a) model_class \<Rightarrow> (ref \<Rightarrow> 's) \<Rightarrow> ModelStack \<Rightarrow> 'a tensor \<Rightarrow> error + ('a tensor \<times> 'a tensor)" where
  "ModelStack_predict C st self qp =
     (case collect (\<lambda>model. predict C (st model) qp) (stack_models self) of
        Inl e \<Rightarrow> Inl e
      | Inr preds \<Rightarrow>
          (case tf_concat (map fst preds) (- 1) of
             Inl e \<Rightarrow> Inl e
           | Inr mean \<Rightarrow>
               (case tf_concat (map snd preds) (- 1) of
                  Inl e \<Rightarrow> Inl e
                | Inr var \<Rightarrow> Inr (mean, var))))"

definition ModelStack_predict_joint ::
  "('s, 'a) model_class \<Rightarrow> (ref \<Rightarrow> 's) \<Rightarrow> ModelStack \<Rightarrow> 'a tensor \<Rightarrow> error + ('a tensor \<times> 'a tensor)" where
  "ModelStack_predict_joint C st self qp =
     (case collect (\<lambda>model. predict_joint C (st model) qp) (stack_models self) of
        Inl e \<Rightarrow> Inl e
      | Inr preds \<Rightarrow>
          (case tf_concat (map fst preds) (- 1) of
             Inl e \<Rightarrow> Inl e
           | Inr mean \<Rightarrow>
               (case tf_concat (map snd preds) (- 3) of
                  Inl e \<Rightarrow> Inl e
                | Inr cov \<Rightarrow> Inr (mean, cov))))"

text \<open>
  The outcome of a call that mutates constituents: the exception raised (if any), the
  store it leaves, and the calls it made on constituents, in order.
\<close>

record ('s, 'a) outcome =
  raised :: "error option"
  store :: "ref \<Rightarrow> 's"
  calls :: "(ref \<times> 'a Dataset) list"

text \<open>\<^verbatim>\<open>for model, obs in zip(self._models, observations): model.METHOD(Dataset(dataset.query_points, obs))\<close>\<close>

fun dispatch ::
  "('s \<Rightarrow> 'a Dataset \<Rightarrow> error option \<times> 's) \<Rightarrow> 'a tensor \<Rightarrow> (ref \<times> 'a tensor) list
     \<Rightarrow> (ref \<Rightarrow> 's) \<Rightarrow> ('s, 'a) outcome" where
  "dispatch method qp [] st = \<lparr>raised = None, store = st, calls = []\<rparr>"
| "dispatch method qp ((model, obs) # rest) st =
     (let d = \<lparr>query_points = qp, observations = obs\<rparr>;
          res = method (st model) d;
          st' = st(model := snd res)
      in case fst res of
           Some e \<Rightarrow> \<lparr>raised = Some e, store = st', calls = [(model, d)]\<rparr>
         | None \<Rightarrow> (let r = dispatch method qp rest st' in r\<lparr>calls := (model, d) # calls r\<rparr>))"

definition ModelStack_update ::
  "('s, 'a) model_class \<Rightarrow> (ref \<Rightarrow> 's) \<Rightarrow> ModelStack \<Rightarrow> 'a Dataset \<Rightarrow> ('s, 'a) outcome" where
  "ModelStack_update C st self dataset =
     (case tf_split (observations dataset) (stack_event_sizes self) of
        Inl e \<Rightarrow> \<lparr>raised = Some e, store = st, calls = []\<rparr>
      | Inr obs \<Rightarrow> dispatch (update C) (query_points dataset) (zip (stack_models self) obs) st)"

definition ModelStack_optimize ::
  "('s, 'a) model_class \<Rightarrow> (ref \<Rightarrow> 's) \<Rightarrow> ModelStack \<Rightarrow> 'a Dataset \<Rightarrow> ('s, 'a) outcome" where
  "ModelStack_optimize C st self dataset =
     (case tf_split (observations dataset) (stack_event_sizes self) of
        Inl e \<Rightarrow> \<lparr>raised = Some e, store = st, calls = []\<rparr>
      | Inr obs \<Rightarrow> dispatch (optimize C) (query_points dataset) (zip (stack_models self) obs) st)"

section \<open>Acquisition function builders\<close>

text \<open>
  A builder is an object: a method table over the builder's own state \<open>'b\<close>.  A method
  returns the acquisition function or the exception raised, and the builder's state
  afterwards.  Models \<open>'m\<close>, datasets \<open>'d\<close>, pending points \<open>'p\<close> and acquisition functions \<open>'f\<close>
  are opaque here.  A \<^verbatim>\<open>Mapping\<close> is a partial map, and \<^verbatim>\<open>mapping[tag]\<close> on a missing tag
  raises \<^verbatim>\<open>KeyError(tag)\<close>; an \<^verbatim>\<open>Optional\<close> argument is an option.
\<close>

record ('b, 'm, 'd, 'f) AcquisitionFunctionBuilder =
  prepare_acquisition_function ::
    "'b \<Rightarrow> (tag \<rightharpoonup> 'm) \<Rightarrow> (tag \<rightharpoonup> 'd) option \<Rightarrow> (error + 'f) \<times> 'b"
  update_acquisition_function ::
    "'b \<Rightarrow> 'f \<Rightarrow> (tag \<rightharpoonup> 'm) \<Rightarrow> (tag \<rightharpoonup> 'd) option \<Rightarrow> (error + 'f) \<times> 'b"

record ('b, 'm, 'd, 'f) SingleModelAcquisitionBuilder =
  single_prepare_acquisition_function ::
    "'b \<Rightarrow> 'm \<Rightarrow> 'd option \<Rightarrow> (error + 'f) \<times> 'b"
  single_update_acquisition_function ::
    "'b \<Rightarrow> 'f \<Rightarrow> 'm \<Rightarrow> 'd option \<Rightarrow> (error + 'f) \<times> 'b"

record ('b, 'm, 'd, 'p, 'f) GreedyAcquisitionFunctionBuilder =
  greedy_prepare_acquisition_function ::
    "'b \<Rightarrow> (tag \<rightharpoonup> 'm) \<Rightarrow> (tag \<rightharpoonup> 'd) option \<Rightarrow> 'p option \<Rightarrow> (error + 'f) \<times> 'b"
  greedy_update_acquisition_function ::
    "'b \<Rightarrow> 'f \<Rightarrow> (tag \<rightharpoonup> 'm) \<Rightarrow> (tag \<rightharpoonup> 'd) option \<Rightarrow> 'p option \<Rightarrow> bool
       \<Rightarrow> (error + 'f) \<times> 'b"

record ('b, 'm, 'd, 'p, 'f) SingleModelGreedyAcquisitionBuilder =
  single_greedy_prepare_acquisition_function ::
    "'b \<Rightarrow> 'm \<Rightarrow> 'd option \<Rightarrow> 'p option \<Rightarrow> (error + 'f) \<times> 'b"
  single_greedy_update_acquisition_function ::
    "'b \<Rightarrow> 'f \<Rightarrow> 'm \<Rightarrow> 'd option \<Rightarrow> 'p option \<Rightarrow> bool \<Rightarrow> (error + 'f) \<times> 'b"

text \<open>
  The four base classes leave \<^verbatim>\<open>prepare_acquisition_function\<close> abstract and give
  \<^verbatim>\<open>update_acquisition_function\<close> a body.  A subclass that supplies \<open>prepare\<close> and does not
  override \<open>update\<close> is the table below; the inherited body calls \<^verbatim>\<open>self.prepare_...\<close>, that
  is, the subclass's own \<open>prepare\<close>.
\<close>

definition AcquisitionFunctionBuilder_subclass ::
  "('b \<Rightarrow> (tag \<rightharpoonup> 'm) \<Rightarrow> (tag \<rightharpoonup> 'd) option \<Rightarrow> (error + 'f) \<times> 'b)
     \<Rightarrow> ('b, 'm, 'd, 'f) AcquisitionFunctionBuilder" where
  "AcquisitionFunctionBuilder_subclass prepare =
     \<lparr>prepare_acquisition_function = prepare,
      update_acquisition_function = (\<lambda>self function models datasets.
         prepare self models datasets)\<rparr>"

definition SingleModelAcquisitionBuilder_subclass ::
  "('b \<Rightarrow> 'm \<Rightarrow> 'd option \<Rightarrow> (error + 'f) \<times> 'b)
     \<Rightarrow> ('b, 'm, 'd, 'f) SingleModelAcquisitionBuilder" where
  "SingleModelAcquisitionBuilder_subclass prepare =
     \<lparr>single_prepare_acquisition_function = prepare,
      single_update_acquisition_function = (\<lambda>self function model dataset.
         prepare self model dataset)\<rparr>"

definition GreedyAcquisitionFunctionBuilder_subclass ::
  "('b \<Rightarrow> (tag \<rightharpoonup> 'm) \<Rightarrow> (tag \<rightharpoonup> 'd) option \<Rightarrow> 'p option \<Rightarrow> (error + 'f) \<times> 'b)
     \<Rightarrow> ('b, 'm, 'd, 'p, 'f) GreedyAcquisitionFunctionBuilder" where
  "GreedyAcquisitionFunctionBuilder_subclass prepare =
     \<lparr>greedy_prepare_acquisition_function = prepare,
      greedy_update_acquisition_function =
        (\<lambda>self function models datasets pending_points new_optimization_step.
           prepare self models datasets pending_points)\<rparr>"

definition SingleModelGreedyAcquisitionBuilder_subclass ::
  "('b \<Rightarrow> 'm \<Rightarrow> 'd option \<Rightarrow> 'p option \<Rightarrow> (error + 'f) \<times> 'b)
     \<Rightarrow> ('b, 'm, 'd, 'p, 'f) SingleModelGreedyAcquisitionBuilder" where
  "SingleModelGreedyAcquisitionBuilder_subclass prepare =
     \<lparr>single_greedy_prepare_acquisition_function = prepare,
      single_greedy_update_acquisition_function =
        (\<lambda>self function model dataset pending_points new_optimization_step.
           prepare self model dataset pending_points)\<rparr>"

text \<open>
  \<^verbatim>\<open>SingleModelAcquisitionBuilder.using(tag)\<close>: the anonymous class overrides both methods.
  Python evaluates \<^verbatim>\<open>models[tag]\<close> first, then
  \<^verbatim>\<open>None if datasets is None else datasets[tag]\<close>, then calls the wrapped builder.  The
  adapter has no state of its own: it acts on the state of \<open>single_builder\<close>.
\<close>

definition SingleModelAcquisitionBuilder_using ::
  "('b, 'm, 'd, 'f) SingleModelAcquisitionBuilder \<Rightarrow> tag
     \<Rightarrow> ('b, 'm, 'd, 'f) AcquisitionFunctionBuilder" where
  "SingleModelAcquisitionBuilder_using single_builder tag =
     \<lparr>prepare_acquisition_function = (\<lambda>self models datasets.
        case models tag of
          None \<Rightarrow> (Inl (KeyError tag), self)
        | Some model \<Rightarrow>
            (case datasets of
               None \<Rightarrow> single_prepare_acquisition_function single_builder self model None
             | Some ds \<Rightarrow>
                 (case ds tag of
                    None \<Rightarrow> (Inl (KeyError tag), self)
                  | Some d \<Rightarrow>
                      single_prepare_acquisition_function single_builder self model (Some d)))),
      update_acquisition_function = (\<lambda>self function models datasets.
        case models tag of
          None \<Rightarrow> (Inl (KeyError tag), self)
        | Some model \<Rightarrow>
            (case datasets of
               None \<Rightarrow> single_update_acquisition_function single_builder self function model None
             | Some ds \<Rightarrow>
                 (case ds tag of
                    None \<Rightarrow> (Inl (KeyError tag), self)
                  | Some d \<Rightarrow>
                      single_update_acquisition_function single_builder self function model
                        (Some d))))\<rparr>"

text \<open>\<^verbatim>\<open>SingleModelGreedyAcquisitionBuilder.using(tag)\<close>\<close>

definition SingleModelGreedyAcquisitionBuilder_using ::
  "('b, 'm, 'd, 'p, 'f) SingleModelGreedyAcquisitionBuilder \<Rightarrow> tag
     \<Rightarrow> ('b, 'm, 'd, 'p, 'f) GreedyAcquisitionFunctionBuilder" where
  "SingleModelGreedyAcquisitionBuilder_using single_builder tag =
     \<lparr>greedy_prepare_acquisition_function = (\<lambda>self models datasets pending_points.
        case models tag of
          None \<Rightarrow> (Inl (KeyError tag), self)
        | Some model \<Rightarrow>
            (case datasets of
               None \<Rightarrow> single_greedy_prepare_acquisition_function single_builder self model None
                         pending_points
             | Some ds \<Rightarrow>
                 (case ds tag of
                    None \<Rightarrow> (Inl (KeyError tag), self)
                  | Some d \<Rightarrow>
                      single_greedy_prepare_acquisition_function single_builder self model
                        (Some d) pending_points))),
      greedy_update_acquisition_function =
        (\<lambda>self function models datasets pending_points new_optimization_step.
        case models tag of
          None \<Rightarrow> (Inl (KeyError tag), self)
        | Some model \<Rightarrow>
            (case datasets of
               None \<Rightarrow> single_greedy_update_acquisition_function single_builder self function
                         model None pending_points new_optimization_step
             | Some ds \<Rightarrow>
                 (case ds tag of
                    None \<Rightarrow> (Inl (KeyError tag), self)
                  | Some d \<Rightarrow>
                      single_greedy_update_acquisition_function single_builder self function
                        model (Some d) pending_points new_optimization_step)))\<rparr>"

section \<open>Gaussian process regression wrapper\<close>

text \<open>
  \<^verbatim>\<open>shape[-1]\<close> of a tensor shape: the trailing dimension, \<^verbatim>\<open>IndexError\<close> on a scalar.
\<close>

definition trailing :: "nat list \<Rightarrow> error + nat" where
  "trailing s = (if s = [] then Inl IndexError else Inr (last s))"

definition assert_data_is_compatible :: "'a Dataset \<Rightarrow> 'a Dataset \<Rightarrow> error + unit" where
  "assert_data_is_compatible new_data existing_data =
     (case trailing (shape (query_points new_data)) of
        Inl e \<Rightarrow> Inl e
      | Inr nq \<Rightarrow>
     (case trailing (shape (query_points existing_data)) of
        Inl e \<Rightarrow> Inl e
      | Inr eq \<Rightarrow>
     if nq \<noteq> eq then
       Inl (ValueError
         [Txt ''Shape '', Shp (shape (query_points new_data)),
          Txt '' of new query points is incompatible with'',
          Txt '' shape '', Shp (shape (query_points existing_data)),
          Txt '' of existing query points. Trailing'',
          Txt '' dimensions must match.''])
     else
     (case trailing (shape (observations new_data)) of
        Inl e \<Rightarrow> Inl e
      | Inr no \<Rightarrow>
     (case trailing (shape (observations existing_data)) of
        Inl e \<Rightarrow> Inl e
      | Inr eo \<Rightarrow>
     if no \<noteq> eo then
       Inl (ValueError
         [Txt ''Shape '', Shp (shape (observations new_data)),
          Txt '' of new observations is incompatible with'',
          Txt '' shape '', Shp (shape (observations existing_data)),
          Txt '' of existing observations. Trailing'',
          Txt '' dimensions must match.''])
     else Inr ()))))"

text \<open>
  The state of a \<^verbatim>\<open>GaussianProcessRegression\<close> that \<^verbatim>\<open>update\<close> reads and writes is the
  wrapped model's \<^verbatim>\<open>data\<close>, a pair of tensors.
\<close>

record 'a GaussianProcessRegression =
  data :: "'a tensor \<times> 'a tensor"

definition GaussianProcessRegression_update ::
  "'a GaussianProcessRegression \<Rightarrow> 'a Dataset \<Rightarrow> error option \<times> 'a GaussianProcessRegression" where
  "GaussianProcessRegression_update self dataset =
     (let x = fst (data self); y = snd (data self) in
      case assert_data_is_compatible dataset \<lparr>query_points = x, observations = y\<rparr> of
        Inl e \<Rightarrow> (Some e, self)
      | Inr _ \<Rightarrow>
     (case trailing (shape (query_points dataset)) of
        Inl e \<Rightarrow> (Some e, self)
      | Inr nq \<Rightarrow>
     (case trailing (shape x) of
        Inl e \<Rightarrow> (Some e, self)
      | Inr eq \<Rightarrow>
     if nq \<noteq> eq then (Some (ValueError []), self)
     else
     (case trailing (shape (observations dataset)) of
        Inl e \<Rightarrow> (Some e, self)
      | Inr no \<Rightarrow>
     (case trailing (shape y) of
        Inl e \<Rightarrow> (Some e, self)
      | Inr eo \<Rightarrow>
     if no \<noteq> eo then (Some (ValueError []), self)
     else (None, self\<lparr>data := (query_points dataset, observations dataset)\<rparr>))))))"

text \<open>
  \<^verbatim>\<open>SparseVariational.update\<close>: the guard, then the data and the row count are replaced.
\<close>

record 'a SparseVariational =
  sv_data :: "'a Dataset"
  sv_num_data :: nat

definition SparseVariational_update ::
  "'a SparseVariational \<Rightarrow> 'a Dataset \<Rightarrow> error option \<times> 'a SparseVariational" where
  "SparseVariational_update self dataset =
     (case assert_data_is_compatible dataset (sv_data self) of
        Inl e \<Rightarrow> (Some e, self)
      | Inr _ \<Rightarrow>
          (let self' = self\<lparr>sv_data := dataset\<rparr> in
           case shape (query_points dataset) of
             [] \<Rightarrow> (Some IndexError, self')
           | num_data # _ \<Rightarrow> (None, self'\<lparr>sv_num_data := num_data\<rparr>)))"

text \<open>
  \<^verbatim>\<open>VariationalGaussianProcess.update\<close> and \<^verbatim>\<open>GPFluxModel.update\<close> run the same guard first, on
  the wrapped model's data (\<open>model_data\<close>) and on \<^verbatim>\<open>self._data\<close> (\<open>flux_data\<close>).  What follows
  the guard is floating-point linear algebra on the wrapped model (Cholesky factors, new
  variational parameters, inducing points); it is taken as the parameters \<open>refit\<close> and
  \<open>reinit\<close>.
\<close>

definition VariationalGaussianProcess_update ::
  "('s \<Rightarrow> 'a tensor \<times> 'a tensor) \<Rightarrow> ('s \<Rightarrow> 'a Dataset \<Rightarrow> error option \<times> 's)
     \<Rightarrow> 's \<Rightarrow> 'a Dataset \<Rightarrow> error option \<times> 's" where
  "VariationalGaussianProcess_update model_data refit self dataset =
     (case assert_data_is_compatible dataset
             \<lparr>query_points = fst (model_data self), observations = snd (model_data self)\<rparr> of
        Inl e \<Rightarrow> (Some e, self)
      | Inr _ \<Rightarrow> refit self dataset)"

definition GPFluxModel_update ::
  "('s \<Rightarrow> 'a Dataset) \<Rightarrow> ('s \<Rightarrow> 'a Dataset \<Rightarrow> error option \<times> 's)
     \<Rightarrow> 's \<Rightarrow> 'a Dataset \<Rightarrow> error option \<times> 's" where
  "GPFluxModel_update flux_data reinit self dataset =
     (case assert_data_is_compatible dataset (flux_data self) of
        Inl e \<Rightarrow> (Some e, self)
      | Inr _ \<Rightarrow> reinit self dataset)"

section \<open>Vocabulary of the properties\<close>

text \<open>
  What the spec says a stack delivers: constituent \<open>i\<close> gets, once, the query points as
  they are and the observation columns from \<open>sum(E_<i)\<close> up to \<open>sum(E_<=i)\<close>.
\<close>

definition routed_calls :: "ModelStack \<Rightarrow> 'a Dataset \<Rightarrow> (ref \<times> 'a Dataset) list" where
  "routed_calls self dataset =
     map (\<lambda>i. (stack_models self ! i,
               \<lparr>query_points = query_points dataset,
                observations = slice_cols (observations dataset)
                   (nat (sum_list (take i (stack_event_sizes self))))
                   (nat (sum_list (take (Suc i) (stack_event_sizes self))))\<rparr>))
         [0..<length (stack_event_sizes self)]"


text \<open>\<open>n\<close> blocks of \<open>b\<close> elements each.\<close>

definition blocks_ok :: "nat \<Rightarrow> nat \<Rightarrow> 'a list list \<Rightarrow> bool" where
  "blocks_ok n b rs = (length rs = n \<and> (\<forall>r\<in>set rs. length r = b))"

text \<open>
  A dataset's tensors have a trailing axis; the trailing dimensions of two datasets agree;
  a failed update reports a mismatch of two shapes when it raises a \<^verbatim>\<open>ValueError\<close> whose
  message interpolates both shapes and leaves the object as it was.
\<close>

definition ranked :: "'a Dataset \<Rightarrow> bool" where
  "ranked d = (shape (query_points d) \<noteq> [] \<and> shape (observations d) \<noteq> [])"

definition dims_match :: "'a Dataset \<Rightarrow> 'a Dataset \<Rightarrow> bool" where
  "dims_match new_data existing_data =
     (last (shape (query_points new_data)) = last (shape (query_points existing_data))
      \<and> last (shape (observations new_data)) = last (shape (observations existing_data)))"

definition mismatch_reported :: "error option \<times> 's \<Rightarrow> 's \<Rightarrow> nat list \<Rightarrow> nat list \<Rightarrow> bool" where
  "mismatch_reported res self new existing =
     (case fst res of
        Some (ValueError msg) \<Rightarrow> snd res = self \<and> Shp new \<in> set msg \<and> Shp existing \<in> set msg
      | _ \<Rightarrow> False)"

definition checks_dimensions ::
  "error option \<times> 's \<Rightarrow> 's \<Rightarrow> 'a Dataset \<Rightarrow> 'a Dataset \<Rightarrow> bool" where
  "checks_dimensions res self new_data existing_data =
     ((fst res = None \<longrightarrow> dims_match new_data existing_data)
      \<and> (last (shape (query_points new_data)) \<noteq> last (shape (query_points existing_data)) \<longrightarrow>
           mismatch_reported res self (shape (query_points new_data))
             (shape (query_points existing_data)))
      \<and> (last (shape (query_points new_data)) = last (shape (query_points existing_data))
         \<and> last (shape (observations new_data)) \<noteq> last (shape (observations existing_data)) \<longrightarrow>
           mismatch_reported res self (shape (observations new_data))
             (shape (observations existing_data))))"

section \<open>Concrete instances\<close>

text \<open>
  A test double for a constituent model: it answers every prediction with the pair of
  tensors it holds, and appends to a log every dataset it is updated or optimised with,
  under the name of the method called.
\<close>

definition canned ::
  "((int tensor \<times> int tensor) \<times> (string \<times> int Dataset) list, int) model_class" where
  "canned =
     \<lparr>predict = (\<lambda>s qp. Inr (fst s)),
      predict_joint = (\<lambda>s qp. Inr (fst s)),
      update = (\<lambda>s d. (None, (fst s, snd s @ [(''update'', d)]))),
      optimize = (\<lambda>s d. (None, (fst s, snd s @ [(''optimize'', d)])))\<rparr>"

definition marginal_store ::
  "ref \<Rightarrow> (int tensor \<times> int tensor) \<times> (string \<times> int Dataset) list" where
  "marginal_store r =
     (if r = 0 then ((\<lparr>shape = [2, 1], elems = [10, 20]\<rparr>, \<lparr>shape = [2, 1], elems = [1, 2]\<rparr>), [])
      else ((\<lparr>shape = [2, 2], elems = [1, 2, 3, 4]\<rparr>, \<lparr>shape = [2, 2], elems = [5, 6, 7, 8]\<rparr>), []))"

definition joint_store ::
  "ref \<Rightarrow> (int tensor \<times> int tensor) \<times> (string \<times> int Dataset) list" where
  "joint_store r =
     (if r = 0 then ((\<lparr>shape = [2, 1], elems = [10, 20]\<rparr>, \<lparr>shape = [1, 2, 2], elems = [1, 2, 3, 4]\<rparr>), [])
      else if r = 1 then
        ((\<lparr>shape = [2, 2], elems = [1, 2, 3, 4]\<rparr>,
          \<lparr>shape = [2, 2, 2], elems = [5, 6, 7, 8, 9, 10, 11, 12]\<rparr>), [])
      else ((\<lparr>shape = [2, 1], elems = [30, 40]\<rparr>, \<lparr>shape = [1, 2, 2], elems = [13, 14, 15, 16]\<rparr>), []))"

definition example_points :: "int tensor" where
  "example_points = \<lparr>shape = [2, 1], elems = [7, 8]\<rparr>"

definition example_dataset :: "int Dataset" where
  "example_dataset =
     \<lparr>query_points = example_points,
      observations = \<lparr>shape = [2, 3], elems = [10, 1, 2, 20, 3, 4]\<rparr>\<rparr>"

definition narrow_dataset :: "int Dataset" where
  "narrow_dataset =
     \<lparr>query_points = example_points,
      observations = \<lparr>shape = [2, 2], elems = [1, 2, 3, 4]\<rparr>\<rparr>"

definition single_column_dataset :: "int Dataset" where
  "single_column_dataset =
     \<lparr>query_points = example_points,
      observations = \<lparr>shape = [2, 1], elems = [5, 6]\<rparr>\<rparr>"

text \<open>
  Single-model builders over numbers: the acquisition function built is the sum of what
  was passed, and the builder counts its calls.
\<close>

definition sum_builder :: "(nat, nat, nat, nat) SingleModelAcquisitionBuilder" where
  "sum_builder = SingleModelAcquisitionBuilder_subclass
     (\<lambda>self model dataset.
        (Inr (model + (case dataset of None \<Rightarrow> 0 | Some d \<Rightarrow> d)), Suc self))"

definition greedy_sum_builder :: "(nat, nat, nat, nat, nat) SingleModelGreedyAcquisitionBuilder" where
  "greedy_sum_builder = SingleModelGreedyAcquisitionBuilder_subclass
     (\<lambda>self model dataset pending_points.
        (Inr (model + (case dataset of None \<Rightarrow> 0 | Some d \<Rightarrow> d)
                + (case pending_points of None \<Rightarrow> 0 | Some p \<Rightarrow> p)), Suc self))"

text \<open>
  Multi-tag builders over numbers that inherit \<^verbatim>\<open>update_acquisition_function\<close>: the
  function built is the sum of the models under the tags \<open>A\<close> and \<open>B\<close> (and of the pending
  points, for the greedy one).
\<close>

definition tagged_sum_builder :: "(nat, nat, nat, nat) AcquisitionFunctionBuilder" where
  "tagged_sum_builder = AcquisitionFunctionBuilder_subclass
     (\<lambda>self models datasets.
        case models ''A'' of
          None \<Rightarrow> (Inl (KeyError ''A''), self)
        | Some a \<Rightarrow>
            (case models ''B'' of
               None \<Rightarrow> (Inl (KeyError ''B''), self)
             | Some b \<Rightarrow> (Inr (a + b), Suc self)))"

definition tagged_greedy_sum_builder ::
  "(nat, nat, nat, nat, nat) GreedyAcquisitionFunctionBuilder" where
  "tagged_greedy_sum_builder = GreedyAcquisitionFunctionBuilder_subclass
     (\<lambda>self models datasets pending_points.
        case models ''A'' of
          None \<Rightarrow> (Inl (KeyError ''A''), self)
        | Some a \<Rightarrow>
            (case models ''B'' of
               None \<Rightarrow> (Inl (KeyError ''B''), self)
             | Some b \<Rightarrow>
                 (Inr (a + b + (case pending_points of None \<Rightarrow> 0 | Some p \<Rightarrow> p)),
                  Suc self)))"

text \<open>A regression wrapper holding three points in two dimensions with one output, and
  datasets to update it with.\<close>

definition held_data :: "int Dataset" where
  "held_data =
     \<lparr>query_points = \<lparr>shape = [3, 2], elems = [1, 2, 3, 4, 5, 6]\<rparr>,
      observations = \<lparr>shape = [3, 1], elems = [1, 2, 3]\<rparr>\<rparr>"

definition gpr_example :: "int GaussianProcessRegression" where
  "gpr_example = \<lparr>data = (query_points held_data, observations held_data)\<rparr>"

definition wide_dataset :: "int Dataset" where
  "wide_dataset =
     \<lparr>query_points = \<lparr>shape = [1, 3], elems = [1, 2, 3]\<rparr>,
      observations = \<lparr>shape = [1, 1], elems = [9]\<rparr>\<rparr>"

definition fitting_dataset :: "int Dataset" where
  "fitting_dataset =
     \<lparr>query_points = \<lparr>shape = [1, 2], elems = [7, 8]\<rparr>,
      observations = \<lparr>shape = [1, 1], elems = [9]\<rparr>\<rparr>"

lemmas example_defs = canned_def marginal_store_def joint_store_def example_points_def example_dataset_def
  narrow_dataset_def single_column_dataset_def ModelStack_init_def ModelStack_update_def ModelStack_optimize_def
  ModelStack_predict_def ModelStack_predict_joint_def tf_split_def tf_concat_def slice_cols_def
  routed_calls_def stack_new_axis_def wf_tensor_def Let_def eval_nat_numeral

section \<open>Builders: default update and tag adapters\<close>

text \<open>
  C8.  A builder, multi-tag or single-model, whose class supplies
  \<^verbatim>\<open>prepare_acquisition_function\<close> and inherits \<^verbatim>\<open>update_acquisition_function\<close>: its update
  returns exactly what the class's own prepare returns on the same models and datasets
  (the result and the builder state alike), which is also what its
  \<^verbatim>\<open>prepare_acquisition_function\<close> returns; the function passed in plays no part.
\<close>

theorem default_update_is_prepare:
  "update_acquisition_function (AcquisitionFunctionBuilder_subclass p) s f ms dss = p s ms dss
   \<and> prepare_acquisition_function (AcquisitionFunctionBuilder_subclass p) s ms dss = p s ms dss
   \<and> update_acquisition_function (AcquisitionFunctionBuilder_subclass p) s f ms dss
     = update_acquisition_function (AcquisitionFunctionBuilder_subclass p) s f' ms dss
   \<and> single_update_acquisition_function (SingleModelAcquisitionBuilder_subclass q) s f m d
     = q s m d
   \<and> single_prepare_acquisition_function (SingleModelAcquisitionBuilder_subclass q) s m d
     = q s m d
   \<and> single_update_acquisition_function (SingleModelAcquisitionBuilder_subclass q) s f m d
     = single_update_acquisition_function (SingleModelAcquisitionBuilder_subclass q) s f' m d"
  by (simp add: AcquisitionFunctionBuilder_subclass_def SingleModelAcquisitionBuilder_subclass_def)

theorem default_update_is_prepare_witness:
  "update_acquisition_function tagged_sum_builder 0 9 [''A'' \<mapsto> 5, ''B'' \<mapsto> 7] None
     = (Inr 12, 1)
   \<and> prepare_acquisition_function tagged_sum_builder 0 [''A'' \<mapsto> 5, ''B'' \<mapsto> 7] None
     = (Inr 12, 1)
   \<and> update_acquisition_function tagged_sum_builder 0 9 [''A'' \<mapsto> 5] None
     = (Inl (KeyError ''B''), 0)
   \<and> single_update_acquisition_function sum_builder 0 9 5 (Some 2) = (Inr 7, 1)
   \<and> single_prepare_acquisition_function sum_builder 0 5 (Some 2) = (Inr 7, 1)"
  using default_update_is_prepare
      [where p = "\<lambda>(self::nat) (models::tag \<rightharpoonup> nat) (datasets::(tag \<rightharpoonup> nat) option).
                    case models ''A'' of
                      None \<Rightarrow> (Inl (KeyError ''A''), self)
                    | Some a \<Rightarrow>
                        (case models ''B'' of
                           None \<Rightarrow> (Inl (KeyError ''B''), self)
                         | Some b \<Rightarrow> (Inr (a + b), Suc self))"
         and q = "\<lambda>(self::nat) (model::nat) (dataset::nat option).
                    (Inr (model + (case dataset of None \<Rightarrow> 0 | Some d \<Rightarrow> d)), Suc self)"
         and s = 0 and f = 9 and f' = 9 and m = 5 and d = "Some 2"
         and ms = "[''A'' \<mapsto> 5, ''B'' \<mapsto> 7]" and dss = None]
  by (simp add: tagged_sum_builder_def sum_builder_def AcquisitionFunctionBuilder_subclass_def
        SingleModelAcquisitionBuilder_subclass_def)

text \<open>
  C3.  The tag adapter of a single-model builder, asked to prepare from models
  \<open>{t: m, other: m2}\<close> and datasets \<open>{t: d}\<close>, returns what the wrapped builder returns on
  \<open>m\<close> and \<open>d\<close>; whatever is stored under another tag does not matter.  More generally the
  same holds for any mappings that have \<open>m\<close> and \<open>d\<close> under \<open>t\<close>.
\<close>

theorem using_prepare_is_single_prepare:
  "other \<noteq> t \<Longrightarrow>
     prepare_acquisition_function (SingleModelAcquisitionBuilder_using b t) self
         (Map.empty(t \<mapsto> m, other \<mapsto> m2)) (Some (Map.empty(t \<mapsto> d)))
       = single_prepare_acquisition_function b self m (Some d)
     \<and> (\<forall>ms ds. ms t = Some m \<and> ds t = Some d \<longrightarrow>
           prepare_acquisition_function (SingleModelAcquisitionBuilder_using b t) self ms (Some ds)
             = single_prepare_acquisition_function b self m (Some d))"
  by (simp add: SingleModelAcquisitionBuilder_using_def)

theorem using_prepare_is_single_prepare_witness:
  "''B'' \<noteq> ''A'' \<and>
   prepare_acquisition_function (SingleModelAcquisitionBuilder_using sum_builder ''A'') 0
       (Map.empty(''A'' \<mapsto> 5, ''B'' \<mapsto> 7)) (Some (Map.empty(''A'' \<mapsto> 2)))
     = (Inr 7, 1)"
  using using_prepare_is_single_prepare [of "''B''" "''A''" sum_builder 0 5 7 2]
  by (simp add: sum_builder_def SingleModelAcquisitionBuilder_subclass_def)

text \<open>
  C4.  For both tag adapters and for prepare and update alike: when the models mapping
  lacks the tag the call raises \<^verbatim>\<open>KeyError(tag)\<close> and the wrapped builder is not called
  (its state is as before); likewise when the models mapping has the tag and a datasets
  mapping is given that lacks it; and when the datasets argument is \<^verbatim>\<open>None\<close> the wrapped
  builder is called with dataset \<^verbatim>\<open>None\<close> and its answer is returned.
\<close>

theorem tag_adapter_missing_tag:
  "(ms t = None \<longrightarrow>
      prepare_acquisition_function (SingleModelAcquisitionBuilder_using b t) self ms dss
        = (Inl (KeyError t), self)
    \<and> update_acquisition_function (SingleModelAcquisitionBuilder_using b t) self f ms dss
        = (Inl (KeyError t), self)
    \<and> greedy_prepare_acquisition_function (SingleModelGreedyAcquisitionBuilder_using g t) self ms dss pp
        = (Inl (KeyError t), self)
    \<and> greedy_update_acquisition_function (SingleModelGreedyAcquisitionBuilder_using g t) self f ms dss pp nos
        = (Inl (KeyError t), self))
   \<and> (ms t = Some m \<and> ds t = None \<longrightarrow>
      prepare_acquisition_function (SingleModelAcquisitionBuilder_using b t) self ms (Some ds)
        = (Inl (KeyError t), self)
    \<and> update_acquisition_function (SingleModelAcquisitionBuilder_using b t) self f ms (Some ds)
        = (Inl (KeyError t), self)
    \<and> greedy_prepare_acquisition_function (SingleModelGreedyAcquisitionBuilder_using g t) self ms (Some ds) pp
        = (Inl (KeyError t), self)
    \<and> greedy_update_acquisition_function (SingleModelGreedyAcquisitionBuilder_using g t) self f ms (Some ds) pp nos
        = (Inl (KeyError t), self))
   \<and> (ms t = Some m \<longrightarrow>
      prepare_acquisition_function (SingleModelAcquisitionBuilder_using b t) self ms None
        = single_prepare_acquisition_function b self m None
    \<and> update_acquisition_function (SingleModelAcquisitionBuilder_using b t) self f ms None
        = single_update_acquisition_function b self f m None
    \<and> greedy_prepare_acquisition_function (SingleModelGreedyAcquisitionBuilder_using g t) self ms None pp
        = single_greedy_prepare_acquisition_function g self m None pp
    \<and> greedy_update_acquisition_function (SingleModelGreedyAcquisitionBuilder_using g t) self f ms None pp nos
        = single_greedy_update_acquisition_function g self f m None pp nos)"
  by (simp add: SingleModelAcquisitionBuilder_using_def SingleModelGreedyAcquisitionBuilder_using_def)

theorem tag_adapter_missing_tag_witness:
  "prepare_acquisition_function (SingleModelAcquisitionBuilder_using sum_builder ''A'') 0
       [''B'' \<mapsto> 7] (Some [''A'' \<mapsto> 2]) = (Inl (KeyError ''A''), 0)
   \<and> greedy_update_acquisition_function
       (SingleModelGreedyAcquisitionBuilder_using greedy_sum_builder ''A'') 0 9
       [''A'' \<mapsto> 5] (Some [''B'' \<mapsto> 2]) (Some 3) False = (Inl (KeyError ''A''), 0)
   \<and> update_acquisition_function (SingleModelAcquisitionBuilder_using sum_builder ''A'') 0 9
       [''A'' \<mapsto> 5] None = (Inr 5, 1)"
proof -
  have a: "[''B'' \<mapsto> (7::nat)] ''A'' = None" by simp
  have b: "[''A'' \<mapsto> (5::nat)] ''A'' = Some 5 \<and> [''B'' \<mapsto> (2::nat)] ''A'' = None" by simp
  have c: "[''A'' \<mapsto> (5::nat)] ''A'' = Some 5" by simp
  from tag_adapter_missing_tag
         [of "[''B'' \<mapsto> 7]" "''A''" sum_builder 0 "Some [''A'' \<mapsto> 2]" 9 greedy_sum_builder]
       a
  have 1: "prepare_acquisition_function (SingleModelAcquisitionBuilder_using sum_builder ''A'') 0
       [''B'' \<mapsto> 7] (Some [''A'' \<mapsto> 2]) = (Inl (KeyError ''A''), 0)"
    by blast
  from tag_adapter_missing_tag
         [of "[''A'' \<mapsto> 5]" "''A''" sum_builder 0 _ 9 greedy_sum_builder "Some 3" False 5
             "[''B'' \<mapsto> 2]"]
       b
  have 2: "greedy_update_acquisition_function
       (SingleModelGreedyAcquisitionBuilder_using greedy_sum_builder ''A'') 0 9
       [''A'' \<mapsto> 5] (Some [''B'' \<mapsto> 2]) (Some 3) False = (Inl (KeyError ''A''), 0)"
    by blast
  from tag_adapter_missing_tag
         [of "[''A'' \<mapsto> 5]" "''A''" sum_builder 0 _ 9 greedy_sum_builder _ _ 5]
       c
  have "update_acquisition_function (SingleModelAcquisitionBuilder_using sum_builder ''A'') 0 9
       [''A'' \<mapsto> 5] None = single_update_acquisition_function sum_builder 0 9 5 None"
    by blast
  then have 3: "update_acquisition_function (SingleModelAcquisitionBuilder_using sum_builder ''A'') 0 9
       [''A'' \<mapsto> 5] None = (Inr 5, 1)"
    by (simp add: sum_builder_def SingleModelAcquisitionBuilder_subclass_def)
  from 1 2 3 show ?thesis by blast
qed

text \<open>
  C7.  A greedy builder, multi-tag or single-model, whose class supplies
  \<^verbatim>\<open>prepare_acquisition_function\<close> and inherits \<^verbatim>\<open>update_acquisition_function\<close>: its update
  returns exactly what the class's own prepare returns on the same models, datasets and
  pending points, whatever \<^verbatim>\<open>new_optimization_step\<close> is.  The greedy tag adapter hands the
  pending points on as they are, and hands \<^verbatim>\<open>new_optimization_step\<close> on to the wrapped
  builder's update.
\<close>

theorem greedy_default_update_and_adapter:
  "greedy_update_acquisition_function (GreedyAcquisitionFunctionBuilder_subclass p) self f ms dss pp nos
     = p self ms dss pp
   \<and> greedy_prepare_acquisition_function (GreedyAcquisitionFunctionBuilder_subclass p) self ms dss pp
     = p self ms dss pp
   \<and> greedy_update_acquisition_function (GreedyAcquisitionFunctionBuilder_subclass p) self f ms dss pp nos
     = greedy_update_acquisition_function (GreedyAcquisitionFunctionBuilder_subclass p) self f ms dss pp nos'
   \<and> single_greedy_update_acquisition_function (SingleModelGreedyAcquisitionBuilder_subclass q) self f m d pp nos
     = q self m d pp
   \<and> single_greedy_prepare_acquisition_function (SingleModelGreedyAcquisitionBuilder_subclass q) self m d pp
     = q self m d pp
   \<and> single_greedy_update_acquisition_function (SingleModelGreedyAcquisitionBuilder_subclass q) self f m d pp nos
     = single_greedy_update_acquisition_function (SingleModelGreedyAcquisitionBuilder_subclass q) self f m d pp nos'
   \<and> (ms t = Some m \<longrightarrow>
        greedy_prepare_acquisition_function (SingleModelGreedyAcquisitionBuilder_using g t) self ms None pp
          = single_greedy_prepare_acquisition_function g self m None pp
      \<and> greedy_update_acquisition_function (SingleModelGreedyAcquisitionBuilder_using g t) self f ms None pp nos
          = single_greedy_update_acquisition_function g self f m None pp nos)
   \<and> (ms t = Some m \<and> ds t = Some d' \<longrightarrow>
        greedy_prepare_acquisition_function (SingleModelGreedyAcquisitionBuilder_using g t) self ms (Some ds) pp
          = single_greedy_prepare_acquisition_function g self m (Some d') pp
      \<and> greedy_update_acquisition_function (SingleModelGreedyAcquisitionBuilder_using g t) self f ms (Some ds) pp nos
          = single_greedy_update_acquisition_function g self f m (Some d') pp nos)"
  by (simp add: GreedyAcquisitionFunctionBuilder_subclass_def
        SingleModelGreedyAcquisitionBuilder_subclass_def
        SingleModelGreedyAcquisitionBuilder_using_def)

theorem greedy_default_update_and_adapter_witness:
  "[''A'' \<mapsto> (5::nat), ''B'' \<mapsto> 7] ''A'' = Some 5 \<and> [''A'' \<mapsto> (2::nat)] ''A'' = Some 2
   \<and> greedy_update_acquisition_function tagged_greedy_sum_builder 0 9
       [''A'' \<mapsto> 5, ''B'' \<mapsto> 7] None (Some 3) False = (Inr 15, 1)
   \<and> greedy_update_acquisition_function tagged_greedy_sum_builder 0 9
       [''A'' \<mapsto> 5, ''B'' \<mapsto> 7] None (Some 3) True = (Inr 15, 1)
   \<and> greedy_prepare_acquisition_function tagged_greedy_sum_builder 0
       [''A'' \<mapsto> 5, ''B'' \<mapsto> 7] None (Some 3) = (Inr 15, 1)
   \<and> single_greedy_update_acquisition_function greedy_sum_builder 0 9 5 (Some 2) (Some 3) False
       = (Inr 10, 1)
   \<and> single_greedy_prepare_acquisition_function greedy_sum_builder 0 5 (Some 2) (Some 3)
       = (Inr 10, 1)
   \<and> greedy_update_acquisition_function
       (SingleModelGreedyAcquisitionBuilder_using greedy_sum_builder ''A'') 0 9
       [''A'' \<mapsto> 5, ''B'' \<mapsto> 7] (Some [''A'' \<mapsto> 2]) (Some 3) False = (Inr 10, 1)
   \<and> greedy_prepare_acquisition_function
       (SingleModelGreedyAcquisitionBuilder_using greedy_sum_builder ''A'') 0
       [''A'' \<mapsto> 5, ''B'' \<mapsto> 7] (Some [''A'' \<mapsto> 2]) (Some 3) = (Inr 10, 1)"
proof -
  have h: "[''A'' \<mapsto> (5::nat), ''B'' \<mapsto> 7] ''A'' = Some 5 \<and> [''A'' \<mapsto> (2::nat)] ''A'' = Some 2"
    by simp
  from greedy_default_update_and_adapter
         [where p = "\<lambda>(self::nat) (models::tag \<rightharpoonup> nat) (datasets::(tag \<rightharpoonup> nat) option)
                       (pending_points::nat option).
                       case models ''A'' of
                         None \<Rightarrow> (Inl (KeyError ''A''), self)
                       | Some a \<Rightarrow>
                           (case models ''B'' of
                              None \<Rightarrow> (Inl (KeyError ''B''), self)
                            | Some b \<Rightarrow>
                                (Inr (a + b + (case pending_points of None \<Rightarrow> 0 | Some p \<Rightarrow> p)),
                                 Suc self))"
            and q = "\<lambda>(self::nat) (model::nat) (dataset::nat option) (pending_points::nat option).
                       (Inr (model + (case dataset of None \<Rightarrow> 0 | Some d \<Rightarrow> d)
                               + (case pending_points of None \<Rightarrow> 0 | Some p \<Rightarrow> p)), Suc self)"
            and self = 0 and f = 9 and ms = "[''A'' \<mapsto> 5, ''B'' \<mapsto> 7]" and dss = None
            and pp = "Some 3" and nos = False and nos' = True and m = 5 and d = "Some 2"
            and t = "''A''" and g = greedy_sum_builder and d' = 2 and ds = "[''A'' \<mapsto> 2]"]
       h
  show ?thesis
    by (simp add: tagged_greedy_sum_builder_def greedy_sum_builder_def
          GreedyAcquisitionFunctionBuilder_subclass_def
          SingleModelGreedyAcquisitionBuilder_subclass_def
          SingleModelGreedyAcquisitionBuilder_using_def)
qed

section \<open>Splitting and concatenating along an axis\<close>

lemma length_chop: "length (chop n w xs) = n"
  by (induction n arbitrary: xs) auto

lemma concat_chop: "concat (chop n w xs) = take (n * w) xs"
  by (induction n arbitrary: xs) (auto simp: take_add)

lemma chop_concat:
  "length rs = n \<Longrightarrow> \<forall>r\<in>set rs. length r = w \<Longrightarrow> chop n w (concat rs) = rs"
  by (induction rs arbitrary: n) auto

lemma chop_row_length:
  "n * w \<le> length xs \<Longrightarrow> r \<in> set (chop n w xs) \<Longrightarrow> length r = w"
proof (induction n arbitrary: xs)
  case 0
  then show ?case by simp
next
  case (Suc n)
  from Suc.prems(1) have le1: "w \<le> length xs" by simp
  from Suc.prems(1) have le2: "n * w \<le> length (drop w xs)" by simp
  from Suc.prems(2) consider "r = take w xs" | "r \<in> set (chop n w (drop w xs))" by auto
  then show ?case
  proof cases
    case 1
    with le1 show ?thesis by simp
  next
    case 2
    from Suc.IH [OF le2 2] show ?thesis .
  qed
qed

lemma length_split_rows: "length (split_rows es rows) = length es"
  by (induction es arbitrary: rows) auto

lemma split_rows_nth:
  "i < length es \<Longrightarrow>
     split_rows es rows ! i = map (\<lambda>r. take (es ! i) (drop (sum_list (take i es)) r)) rows"
proof (induction es arbitrary: i rows)
  case Nil
  then show ?case by simp
next
  case (Cons e es)
  show ?case
  proof (cases i)
    case 0
    then show ?thesis by simp
  next
    case (Suc j)
    with Cons.prems have "j < length es" by simp
    from Cons.IH [OF this, of "map (drop e) rows"] Suc
    show ?thesis by (simp add: o_def add.commute)
  qed
qed

lemma pieces_are_slices:
  "map2 (\<lambda>e rows. \<lparr>shape = butlast (shape v) @ [e], elems = concat rows\<rparr>) es
        (split_rows es (chop (prod_list (butlast (shape v))) (last (shape v)) (elems v)))
     = map (\<lambda>i. slice_cols v (sum_list (take i es)) (sum_list (take (Suc i) es))) [0..<length es]"
proof -
  let ?rows = "chop (prod_list (butlast (shape v))) (last (shape v)) (elems v)"
  let ?f = "\<lambda>e rows. \<lparr>shape = butlast (shape v) @ [e], elems = concat rows\<rparr>"
  show ?thesis
  proof (rule nth_equalityI)
    show "length (map2 ?f es (split_rows es ?rows))
            = length (map (\<lambda>i. slice_cols v (sum_list (take i es)) (sum_list (take (Suc i) es))) [0..<length es])"
      by (simp add: length_split_rows)
  next
    fix i assume "i < length (map2 ?f es (split_rows es ?rows))"
    then have i: "i < length es" by (simp add: length_split_rows)
    then have "sum_list (take (Suc i) es) - sum_list (take i es) = es ! i"
      by (simp add: take_Suc_conv_app_nth)
    with i show "map2 ?f es (split_rows es ?rows) ! i
            = map (\<lambda>i. slice_cols v (sum_list (take i es)) (sum_list (take (Suc i) es))) [0..<length es] ! i"
      by (simp add: length_split_rows split_rows_nth slice_cols_def)
  qed
qed

text \<open>Sizes that are natural numbers: no \<open>-1\<close> among them, none negative.\<close>

lemma count_minus_one_nat: "count_list (map int ns) (- 1) = 0"
  by (induction ns) auto

lemma filter_minus_one_nat: "filter (\<lambda>e. e \<noteq> - 1) (map int ns) = map int ns"
  by (induction ns) auto

lemma sum_list_int: "sum_list (map int ns) = int (sum_list ns)"
  by (induction ns) auto

lemma no_negative_nat: "\<not> list_ex (\<lambda>e. e < 0) (map int ns)"
  by (induction ns) auto

lemma resolve_nat: "map (\<lambda>e. if e = - 1 then x else e) (map int ns) = map int ns"
  by (induction ns) auto

lemma nat_int_list: "map nat (map int ns) = ns"
  by (induction ns) auto

lemma nonneg_are_nat: "\<forall>e\<in>set es. 0 \<le> e \<Longrightarrow> map int (map nat es) = es"
  by (induction es) auto

lemma tf_split_many:
  assumes "shape v \<noteq> []" and "2 \<le> length ns" and "sum_list ns = last (shape v)"
  shows "tf_split v (map int ns)
           = Inr (map2 (\<lambda>e rows. \<lparr>shape = butlast (shape v) @ [e], elems = concat rows\<rparr>) ns
                    (split_rows ns (chop (prod_list (butlast (shape v))) (last (shape v)) (elems v))))"
proof -
  from assms(2) have ne: "ns \<noteq> []" and len: "length ns \<noteq> Suc 0" by auto
  show ?thesis
    unfolding tf_split_def Let_def
    using assms(1,3) ne len
    by (simp add: count_minus_one_nat filter_minus_one_nat sum_list_int no_negative_nat
          resolve_nat nat_int_list del: map_map)
qed

lemma tf_split_single: "shape v \<noteq> [] \<Longrightarrow> tf_split v [int (last (shape v))] = Inr [v]"
  by (simp add: tf_split_def)

lemma map_take_chop: "map (take w) (chop n w xs) = chop n w xs"
  by (induction n arbitrary: xs) auto

lemma slice_cols_whole:
  assumes "shape v \<noteq> []" and "wf_tensor v"
  shows "slice_cols v 0 (last (shape v)) = v"
proof -
  let ?n = "prod_list (butlast (shape v))"
  let ?w = "last (shape v)"
  have "butlast (shape v) @ [last (shape v)] = shape v"
    using assms(1) by simp
  then have "prod_list (butlast (shape v) @ [last (shape v)]) = prod_list (shape v)"
    by (rule arg_cong)
  then have "length (elems v) = ?n * ?w"
    using assms(2) by (simp add: wf_tensor_def)
  then have "concat (chop ?n ?w (elems v)) = elems v"
    by (simp add: concat_chop)
  then show ?thesis
    using assms(1) by (cases v) (simp add: slice_cols_def map_take_chop)
qed

lemma tf_split_slices:
  assumes "shape v \<noteq> []" and "wf_tensor v" and "ns \<noteq> []" and "sum_list ns = last (shape v)"
  shows "tf_split v (map int ns) =
           Inr (map (\<lambda>i. slice_cols v (sum_list (take i ns)) (sum_list (take (Suc i) ns)))
                  [0..<length ns])"
proof (cases "length ns = 1")
  case True
  then obtain e where ns: "ns = [e]" by (cases ns) auto
  with assms(4) have e: "e = last (shape v)" by simp
  show ?thesis
    using tf_split_single [OF assms(1)] slice_cols_whole [OF assms(1,2)] by (simp add: ns e)
next
  case False
  from assms(3) have "length ns \<noteq> 0" by simp
  with False have "2 \<le> length ns" by arith
  from tf_split_many [OF assms(1) this assms(4)] show ?thesis
    by (simp only: pieces_are_slices)
qed

lemma map2_append_Nil: "length xs = n \<Longrightarrow> map2 (@) xs (replicate n []) = xs"
  by (induction xs arbitrary: n) auto

lemma map_take_map2_append:
  "length rs = length zs \<Longrightarrow> \<forall>r\<in>set rs. length r = b \<Longrightarrow> map (take b) (map2 (@) rs zs) = rs"
  by (induction rs zs rule: list_induct2) auto

lemma map_drop_map2_append:
  "length rs = length zs \<Longrightarrow> \<forall>r\<in>set rs. length r = b \<Longrightarrow> map (drop b) (map2 (@) rs zs) = zs"
  by (induction rs zs rule: list_induct2) auto

lemma map2_append_row_length:
  "length rs = length zs \<Longrightarrow> \<forall>r\<in>set rs. length r = b \<Longrightarrow> \<forall>z\<in>set zs. length z = c \<Longrightarrow>
     \<forall>r\<in>set (map2 (@) rs zs). length r = b + c"
  by (induction rs zs rule: list_induct2) auto

lemma zip_append_rows:
  "list_all2 (blocks_ok n) bs rss \<Longrightarrow> blocks_ok n (sum_list bs) (zip_append n rss)"
proof (induction bs rss rule: list_all2_induct)
  case Nil
  then show ?case by (simp add: blocks_ok_def)
next
  case (Cons b bs rs rss)
  then have len: "length rs = length (zip_append n rss)"
    by (simp add: blocks_ok_def)
  with Cons show ?case
    using map2_append_row_length [OF len, of b "sum_list bs"]
    by (simp add: blocks_ok_def)
qed

lemma split_rows_zip_append:
  "list_all2 (blocks_ok n) bs rss \<Longrightarrow> split_rows bs (zip_append n rss) = rss"
proof (induction bs rss rule: list_all2_induct)
  case Nil
  then show ?case by simp
next
  case (Cons b bs rs rss)
  from Cons(2) have "blocks_ok n (sum_list bs) (zip_append n rss)" by (rule zip_append_rows)
  with Cons(1) have len: "length rs = length (zip_append n rss)" and rows: "\<forall>r\<in>set rs. length r = b"
    by (simp_all add: blocks_ok_def)
  show ?case
    using Cons.IH map_take_map2_append [OF len rows] map_drop_map2_append [OF len rows]
    by simp
qed

lemma zip_append_nth:
  "list_all2 (blocks_ok n) bs rss \<Longrightarrow> i < n \<Longrightarrow>
     zip_append n rss ! i = concat (map (\<lambda>rs. rs ! i) rss)"
proof (induction bs rss rule: list_all2_induct)
  case Nil
  then show ?case by simp
next
  case (Cons b bs rs rss)
  from Cons(2) have "blocks_ok n (sum_list bs) (zip_append n rss)" by (rule zip_append_rows)
  with Cons(1) Cons.prems have "i < length rs" "i < length (zip_append n rss)"
    by (simp_all add: blocks_ok_def)
  with Cons.IH Cons.prems show ?case by simp
qed

lemma length_concat_blocks: "blocks_ok n b rs \<Longrightarrow> length (concat rs) = n * b"
  unfolding blocks_ok_def by (induction rs arbitrary: n) auto

lemma chop_blocks_ok: "length xs = n * b \<Longrightarrow> blocks_ok n b (chop n b xs)"
  unfolding blocks_ok_def using chop_row_length [of n b xs] by (auto simp: length_chop)

lemma tensor_eqI: "shape t = s \<Longrightarrow> elems t = xs \<Longrightarrow> \<lparr>shape = s, elems = xs\<rparr> = t"
  by (cases t) simp

lemma tf_concat_axis:
  assumes ne: "ts \<noteq> []"
    and ok: "\<forall>t\<in>set ts. wf_tensor t \<and> (\<exists>d. shape t = outer @ [d] @ inner)"
  shows "tf_concat ts (- int (Suc (length inner)))
          = Inr \<lparr>shape = outer @ [sum_list (map (\<lambda>t. shape t ! length outer) ts)] @ inner,
                 elems = concat (zip_append (prod_list outer)
                    (map (\<lambda>t. chop (prod_list outer) (shape t ! length outer * prod_list inner) (elems t)) ts))\<rparr>"
proof -
  from ne obtain v rest where ts: "ts = v # rest" by (cases ts) auto
  from ok ts obtain d where v: "wf_tensor v" "shape v = outer @ [d] @ inner" by auto
  have shp: "\<forall>t\<in>set ts. length (shape t) = length (shape v)
                \<and> take (length outer) (shape t) = outer
                \<and> drop (Suc (length outer)) (shape t) = inner"
    using ok v(2) by auto
  show ?thesis
  proof (cases rest)
    case Nil
    have len: "length (elems v) = prod_list outer * (d * prod_list inner)"
      using v by (simp add: wf_tensor_def)
    have "concat (map2 (@) (chop (prod_list outer) (d * prod_list inner) (elems v))
                    (replicate (prod_list outer) [])) = elems v"
      using len by (simp add: map2_append_Nil length_chop concat_chop)
    then show ?thesis
      using v(2) by (simp add: ts Nil tf_concat_def tensor_eqI)
  next
    case (Cons w rest')
    have a: "- int (Suc (length inner)) + int (length (shape v)) = int (length outer)"
      using v(2) by simp
    have all: "list_all (\<lambda>t. length (shape t) = length (shape v)
                \<and> take (length outer) (shape t) = outer
                \<and> drop (Suc (length outer)) (shape t) = inner) (v # w # rest')"
      using shp by (simp add: ts Cons list_all_iff)
    have tk: "take (length outer) (shape v) = outer" "drop (Suc (length outer)) (shape v) = inner"
      using v(2) by simp_all
    show ?thesis
      unfolding ts Cons tf_concat_def
      using all tk v(2) by (simp add: Let_def a del: list.pred_inject)
  qed
qed

lemma collect_all: "list_all2 (\<lambda>x y. f x = Inr y) xs ys \<Longrightarrow> collect f xs = Inr ys"
  by (induction xs ys rule: list_all2_induct) auto

lemma map2_rebuild:
  "list_all2 (\<lambda>e t. f e (g t) = t) es ts \<Longrightarrow> map2 f es (map g ts) = ts"
  by (induction es ts rule: list_all2_induct) auto

lemma axis_dims:
  "list_all2 (\<lambda>e t. shape t = outer @ [e] @ inner) es ts \<Longrightarrow>
     map (\<lambda>t. shape t ! length outer) ts = es"
  by (induction es ts rule: list_all2_induct) auto

lemma sum_list_scale: "sum_list (map (\<lambda>e. e * m) es) = sum_list es * (m::nat)"
  by (induction es) (auto simp: algebra_simps)

text \<open>What concatenation along an axis yields, for well-formed tensors that agree on
  every other axis.\<close>

lemma tf_concat_blocks:
  assumes ne: "ts \<noteq> []"
    and ok: "list_all2 (\<lambda>e t. wf_tensor t \<and> shape t = outer @ [e] @ inner) es ts"
  defines "n \<equiv> prod_list outer" and "m \<equiv> prod_list inner"
  defines "rss \<equiv> map2 (\<lambda>e t. chop n (e * m) (elems t)) es ts"
  shows "tf_concat ts (- int (Suc (length inner)))
           = Inr \<lparr>shape = outer @ [sum_list es] @ inner, elems = concat (zip_append n rss)\<rparr>"
    and "list_all2 (blocks_ok n) (map (\<lambda>e. e * m) es) rss"
proof -
  have set_ok: "\<forall>t\<in>set ts. wf_tensor t \<and> (\<exists>d. shape t = outer @ [d] @ inner)"
    using ok by (induction es ts rule: list_all2_induct) auto
  have dims: "map (\<lambda>t. shape t ! length outer) ts = es"
    using ok by (intro axis_dims [of outer inner]) (auto elim: list_all2_mono)
  have rss: "map (\<lambda>t. chop n (shape t ! length outer * m) (elems t)) ts = rss"
    unfolding rss_def using ok by (induction es ts rule: list_all2_induct) auto
  show "tf_concat ts (- int (Suc (length inner)))
           = Inr \<lparr>shape = outer @ [sum_list es] @ inner, elems = concat (zip_append n rss)\<rparr>"
    using tf_concat_axis [OF ne set_ok] dims rss unfolding n_def m_def by simp
  show "list_all2 (blocks_ok n) (map (\<lambda>e. e * m) es) rss"
    unfolding rss_def using ok
  proof (induction es ts rule: list_all2_induct)
    case Nil
    then show ?case by simp
  next
    case (Cons e es t ts)
    then have "length (elems t) = n * (e * m)"
      by (simp add: wf_tensor_def n_def m_def)
    then have "blocks_ok n (e * m) (chop n (e * m) (elems t))" by (rule chop_blocks_ok)
    with Cons.IH show ?case by simp
  qed
qed

lemma tf_split_tf_concat:
  assumes ne: "ts \<noteq> []"
    and ok: "list_all2 (\<lambda>e t. wf_tensor t \<and> shape t = lead @ [e]) es ts"
  shows "\<exists>c. tf_concat ts (- 1) = Inr c \<and> shape c = lead @ [sum_list es] \<and> wf_tensor c
             \<and> tf_split c (map int es) = Inr ts"
proof -
  define n where "n = prod_list lead"
  define rss where "rss = map2 (\<lambda>e t. chop n (e * prod_list []) (elems t)) es ts"
  define c where "c = \<lparr>shape = lead @ [sum_list es], elems = concat (zip_append n rss)\<rparr>"
  have ok': "list_all2 (\<lambda>e t. wf_tensor t \<and> shape t = lead @ [e] @ []) es ts"
    using ok by simp
  have conc: "tf_concat ts (- int (Suc (length ([]::nat list)))) = Inr c"
    using tf_concat_blocks(1) [OF ne ok'] unfolding c_def rss_def n_def by simp
  have blocks: "list_all2 (blocks_ok n) es rss"
    using tf_concat_blocks(2) [OF ne ok'] unfolding rss_def n_def by simp
  have Z: "blocks_ok n (sum_list es) (zip_append n rss)"
    using blocks by (rule zip_append_rows)
  have wf: "wf_tensor c"
    using length_concat_blocks [OF Z] by (simp add: wf_tensor_def c_def n_def)
  have chop: "chop n (sum_list es) (concat (zip_append n rss)) = zip_append n rss"
    using Z by (intro chop_concat) (simp_all add: blocks_ok_def)
  have rebuild: "map2 (\<lambda>e rows. \<lparr>shape = lead @ [e], elems = concat rows\<rparr>) es rss = ts"
    unfolding rss_def using ok
  proof (induction es ts rule: list_all2_induct)
    case Nil
    then show ?case by simp
  next
    case (Cons e es t ts)
    then have "length (elems t) = n * e" by (simp add: wf_tensor_def n_def)
    then have "concat (chop n e (elems t)) = elems t" by (simp add: concat_chop)
    with Cons show ?case by (simp add: tensor_eqI)
  qed
  have len: "length es = length ts" using ok by (rule list_all2_lengthD)
  have shp: "shape c \<noteq> []" "last (shape c) = sum_list es" "butlast (shape c) = lead"
    by (simp_all add: c_def)
  have "tf_split c (map int es) = Inr ts"
  proof (cases "length es = 1")
    case True
    with len obtain e t where one: "es = [e]" "ts = [t]"
      by (cases es; cases ts) auto
    from conc have "c = t" by (simp add: one tf_concat_def)
    with tf_split_single [OF shp(1)] shp(2) show ?thesis by (simp add: one)
  next
    case False
    from ne len have "length es \<noteq> 0" by simp
    with False have "2 \<le> length es" by arith
    from tf_split_many [OF shp(1) this shp(2) [symmetric]]
    show ?thesis
      using chop split_rows_zip_append [OF blocks] rebuild
      by (simp add: shp c_def n_def)
  qed
  with conc wf show ?thesis by (auto simp: c_def)
qed

section \<open>Model stack: update and optimize\<close>













text \<open>
  C5, as the spec words it, fails: \<^verbatim>\<open>tf.split\<close> reads an event size of \<open>-1\<close> as "the rest".
  With event sizes \<open>-1\<close> and \<open>2\<close> (sum \<open>1\<close>) and observations three columns wide,
  \<^verbatim>\<open>ModelStack.update\<close> raises nothing and updates both constituents.
\<close>

theorem ModelStack_rest_size_counterexample:
  "int (last (shape (observations example_dataset)))
       \<noteq> sum_list (stack_event_sizes (ModelStack_init (0, - 1) [(1, 2)]))
   \<and> raised (ModelStack_update canned marginal_store (ModelStack_init (0, - 1) [(1, 2)])
               example_dataset) = None
   \<and> calls (ModelStack_update canned marginal_store (ModelStack_init (0, - 1) [(1, 2)])
               example_dataset)
       = [(0, \<lparr>query_points = example_points, observations = \<lparr>shape = [2, 1], elems = [10, 20]\<rparr>\<rparr>),
          (1, \<lparr>query_points = example_points, observations = \<lparr>shape = [2, 2], elems = [1, 2, 3, 4]\<rparr>\<rparr>)]
   \<and> snd (store (ModelStack_update canned marginal_store (ModelStack_init (0, - 1) [(1, 2)])
                    example_dataset) 0)
       = [(''update'',
           \<lparr>query_points = example_points, observations = \<lparr>shape = [2, 1], elems = [10, 20]\<rparr>\<rparr>)]"
  by (simp add: example_defs)

text \<open>
  C5, amended.  For a stack none of whose event sizes is \<open>-1\<close>: when the observations of
  the dataset have no trailing axis, or one whose width is not the sum of the event sizes,
  \<^verbatim>\<open>ModelStack.update\<close> and \<^verbatim>\<open>ModelStack.optimize\<close> raise the shape error of \<^verbatim>\<open>tf.split\<close>,
  make no call on any constituent, and leave the store as it was.
\<close>

theorem ModelStack_width_mismatch_touches_nothing:
  "- 1 \<notin> set (stack_event_sizes self) \<Longrightarrow>
   shape (observations dataset) = []
     \<or> int (last (shape (observations dataset))) \<noteq> sum_list (stack_event_sizes self) \<Longrightarrow>
     ModelStack_update C st self dataset = \<lparr>raised = Some InvalidArgumentError, store = st, calls = []\<rparr>
   \<and> ModelStack_optimize C st self dataset = \<lparr>raised = Some InvalidArgumentError, store = st, calls = []\<rparr>"
proof -
  assume no_rest: "- 1 \<notin> set (stack_event_sizes self)"
    and mismatch: "shape (observations dataset) = []
     \<or> int (last (shape (observations dataset))) \<noteq> sum_list (stack_event_sizes self)"
  have "tf_split (observations dataset) (stack_event_sizes self) = Inl InvalidArgumentError"
  proof (cases "stack_event_sizes self = [] \<or> shape (observations dataset) = []")
    case True
    then show ?thesis by (simp add: tf_split_def)
  next
    case False
    with mismatch have w: "int (last (shape (observations dataset))) \<noteq> sum_list (stack_event_sizes self)"
      by simp
    show ?thesis
    proof (cases "length (stack_event_sizes self) = 1")
      case True
      then obtain e where "stack_event_sizes self = [e]"
        by (cases "stack_event_sizes self") auto
      with w False show ?thesis by (simp add: tf_split_def)
    next
      case many: False
      from no_rest have "count_list (stack_event_sizes self) (- 1) = 0"
        by (simp add: count_list_0_iff)
      moreover from no_rest
      have "filter (\<lambda>e. e \<noteq> - 1) (stack_event_sizes self) = stack_event_sizes self"
        by (simp add: filter_id_conv) metis
      ultimately show ?thesis
        using w False many by (simp add: tf_split_def Let_def)
    qed
  qed
  then show ?thesis
    by (simp add: ModelStack_update_def ModelStack_optimize_def)
qed

theorem ModelStack_width_mismatch_touches_nothing_witness:
  "- 1 \<notin> set (stack_event_sizes (ModelStack_init (0, 1) [(1, 2)]))
   \<and> int (last (shape (observations narrow_dataset)))
       \<noteq> sum_list (stack_event_sizes (ModelStack_init (0, 1) [(1, 2)]))
   \<and> ModelStack_update canned marginal_store (ModelStack_init (0, 1) [(1, 2)]) narrow_dataset
       = \<lparr>raised = Some InvalidArgumentError, store = marginal_store, calls = []\<rparr>
   \<and> ModelStack_optimize canned marginal_store (ModelStack_init (0, 1) [(1, 2)]) narrow_dataset
       = \<lparr>raised = Some InvalidArgumentError, store = marginal_store, calls = []\<rparr>"
proof -
  have n: "- 1 \<notin> set (stack_event_sizes (ModelStack_init (0, 1) [(1, 2)]))"
    by (simp add: ModelStack_init_def)
  have h: "int (last (shape (observations narrow_dataset)))
       \<noteq> sum_list (stack_event_sizes (ModelStack_init (0, 1) [(1, 2)]))"
    by (simp add: narrow_dataset_def ModelStack_init_def)
  then have "shape (observations narrow_dataset) = []
      \<or> int (last (shape (observations narrow_dataset)))
           \<noteq> sum_list (stack_event_sizes (ModelStack_init (0, 1) [(1, 2)]))"
    by simp
  from ModelStack_width_mismatch_touches_nothing [OF n this, of canned marginal_store] n h
  show ?thesis by simp
qed

section \<open>Model stack: predictions\<close>

text \<open>A shape that ends in an integer size ends in that size as a natural number.\<close>

lemma trailing_int:
  assumes "map int s = map int lead @ [e]"
  shows "s = lead @ [nat e]" and "0 \<le> e"
proof -
  from assms obtain us vs where s: "s = us @ vs" and us: "map int lead = map int us"
      and vs: "[e] = map int vs"
    by (auto simp: map_eq_append_conv)
  from us have "lead = us" by simp
  moreover from vs obtain x where "vs = [x]" "e = int x" by (cases vs) auto
  ultimately show "s = lead @ [nat e]" and "0 \<le> e" using s by simp_all
qed

lemma list_all2_left: "list_all2 (\<lambda>x y. Q x) xs ys \<Longrightarrow> \<forall>x\<in>set xs. Q x"
  by (induction xs ys rule: list_all2_induct) auto

lemma predict_concat_core:
  assumes pairs: "pairs \<noteq> []" and models: "stack_models self = map fst pairs"
    and preds: "list_all2 (\<lambda>me mv. predict C (st (fst me)) qp = Inr mv
              \<and> wf_tensor (fst mv) \<and> shape (fst mv) = lead @ [snd me]
              \<and> wf_tensor (snd mv) \<and> shape (snd mv) = lead @ [snd me]) pairs preds"
  shows "\<exists>mean var.
           ModelStack_predict C st (self) qp = Inr (mean, var)
         \<and> shape mean = lead @ [sum_list (map snd pairs)]
         \<and> shape var = lead @ [sum_list (map snd pairs)]
         \<and> tf_split mean (map int (map snd pairs)) = Inr (map fst preds)
         \<and> tf_split var (map int (map snd pairs)) = Inr (map snd preds)
         \<and> (\<forall>i<length preds.
               slice_cols mean (sum_list (take i (map snd pairs)))
                               (sum_list (take (Suc i) (map snd pairs))) = fst (preds ! i)
             \<and> slice_cols var (sum_list (take i (map snd pairs)))
                              (sum_list (take (Suc i) (map snd pairs))) = snd (preds ! i))"
proof -
  let ?es = "map snd pairs"
  let ?slice = "\<lambda>t i. slice_cols t (sum_list (take i ?es)) (sum_list (take (Suc i) ?es))"
  have len: "length preds = length ?es"
    using preds by (auto dest: list_all2_lengthD)
  with pairs have ne: "map fst preds \<noteq> []" "map snd preds \<noteq> []" and nes: "?es \<noteq> []"
    by auto
  have coll: "collect (\<lambda>model. predict C (st model) qp) (map fst pairs) = Inr preds"
  proof (rule collect_all)
    show "list_all2 (\<lambda>x y. predict C (st x) qp = Inr y) (map fst pairs) preds"
      unfolding list_all2_map1 using preds by (rule list_all2_mono) simp
  qed
  have means: "list_all2 (\<lambda>e t. wf_tensor t \<and> shape t = lead @ [e]) ?es (map fst preds)"
    unfolding list_all2_map1 list_all2_map2 using preds by (rule list_all2_mono) simp
  have vars: "list_all2 (\<lambda>e t. wf_tensor t \<and> shape t = lead @ [e]) ?es (map snd preds)"
    unfolding list_all2_map1 list_all2_map2 using preds by (rule list_all2_mono) simp
  from tf_split_tf_concat [OF ne(1) means] obtain mean where
    mean: "tf_concat (map fst preds) (- 1) = Inr mean" "shape mean = lead @ [sum_list ?es]"
          "tf_split mean (map int ?es) = Inr (map fst preds)" "wf_tensor mean" by blast
  from tf_split_tf_concat [OF ne(2) vars] obtain var where
    var: "tf_concat (map snd preds) (- 1) = Inr var" "shape var = lead @ [sum_list ?es]"
         "tf_split var (map int ?es) = Inr (map snd preds)" "wf_tensor var" by blast
  have res: "ModelStack_predict C st (self) qp = Inr (mean, var)"
    using coll mean(1) var(1) by (simp add: ModelStack_predict_def models)
  have sl_mean: "map (?slice mean) [0..<length ?es] = map fst preds"
  proof -
    have "shape mean \<noteq> []" and "sum_list ?es = last (shape mean)"
      using mean(2) by simp_all
    from tf_split_slices [OF this(1) mean(4) nes this(2)] mean(3)
    show ?thesis by (simp only: sum.inject)
  qed
  have sl_var: "map (?slice var) [0..<length ?es] = map snd preds"
  proof -
    have "shape var \<noteq> []" and "sum_list ?es = last (shape var)"
      using var(2) by simp_all
    from tf_split_slices [OF this(1) var(4) nes this(2)] var(3)
    show ?thesis by (simp only: sum.inject)
  qed
  have slices: "\<forall>i<length preds. ?slice mean i = fst (preds ! i) \<and> ?slice var i = snd (preds ! i)"
  proof (intro allI impI)
    fix i assume i: "i < length preds"
    then have "map (?slice mean) [0..<length ?es] ! i = ?slice mean i"
      and "map (?slice var) [0..<length ?es] ! i = ?slice var i"
      using len by (simp_all del: upt_Suc)
    with i show "?slice mean i = fst (preds ! i) \<and> ?slice var i = snd (preds ! i)"
      unfolding sl_mean sl_var by simp
  qed
  from res mean(2,3) var(2,3) slices show ?thesis by blast
qed

lemma predict_joint_concat_core:
  assumes pairs: "pairs \<noteq> []" and models: "stack_models self = map fst pairs"
    and preds: "list_all2 (\<lambda>me mc. predict_joint C (st (fst me)) qp = Inr mc
              \<and> wf_tensor (fst mc) \<and> shape (fst mc) = lead @ [B, snd me]
              \<and> wf_tensor (snd mc) \<and> shape (snd mc) = lead @ [snd me, B, B]) pairs preds"
  shows "\<exists>mean cov.
           ModelStack_predict_joint C st (self) qp = Inr (mean, cov)
         \<and> shape mean = lead @ [B, sum_list (map snd pairs)]
         \<and> tf_split mean (map int (map snd pairs)) = Inr (map fst preds)
         \<and> shape cov = lead @ [sum_list (map snd pairs), B, B]
         \<and> (\<forall>i<prod_list lead.
               chop (prod_list lead) (sum_list (map snd pairs) * (B * B)) (elems cov) ! i
                 = concat (map2 (\<lambda>e mc. chop (prod_list lead) (e * (B * B)) (elems (snd mc)) ! i)
                             (map snd pairs) preds))"
proof -
  let ?es = "map snd pairs"
  define n where "n = prod_list lead"
  define rss where "rss = map2 (\<lambda>e t. chop n (e * prod_list [B, B]) (elems t)) ?es (map snd preds)"
  have len: "length preds = length ?es"
    using preds by (auto dest: list_all2_lengthD)
  with pairs have ne: "map fst preds \<noteq> []" "map snd preds \<noteq> []" by auto
  have coll: "collect (\<lambda>model. predict_joint C (st model) qp) (map fst pairs) = Inr preds"
  proof (rule collect_all)
    show "list_all2 (\<lambda>x y. predict_joint C (st x) qp = Inr y) (map fst pairs) preds"
      unfolding list_all2_map1 using preds by (rule list_all2_mono) simp
  qed
  have means: "list_all2 (\<lambda>e t. wf_tensor t \<and> shape t = (lead @ [B]) @ [e]) ?es (map fst preds)"
    unfolding list_all2_map1 list_all2_map2 using preds by (rule list_all2_mono) simp
  have covs: "list_all2 (\<lambda>e t. wf_tensor t \<and> shape t = lead @ [e] @ [B, B]) ?es (map snd preds)"
    unfolding list_all2_map1 list_all2_map2 using preds by (rule list_all2_mono) simp
  from tf_split_tf_concat [OF ne(1) means] obtain mean where
    mean: "tf_concat (map fst preds) (- 1) = Inr mean" "shape mean = lead @ [B, sum_list ?es]"
          "tf_split mean (map int ?es) = Inr (map fst preds)" by auto
  define cov where "cov = \<lparr>shape = lead @ [sum_list ?es] @ [B, B], elems = concat (zip_append n rss)\<rparr>"
  have cov: "tf_concat (map snd preds) (- 3) = Inr cov"
    using tf_concat_blocks(1) [OF ne(2) covs] unfolding cov_def rss_def n_def by simp
  have blocks: "list_all2 (blocks_ok n) (map (\<lambda>e. e * prod_list [B, B]) ?es) rss"
    using tf_concat_blocks(2) [OF ne(2) covs] unfolding rss_def n_def by simp
  have Z: "blocks_ok n (sum_list ?es * (B * B)) (zip_append n rss)"
    using zip_append_rows [OF blocks] sum_list_scale [of "B * B" ?es] by simp
  have chop: "chop n (sum_list ?es * (B * B)) (elems cov) = zip_append n rss"
    unfolding cov_def using Z by (simp add: chop_concat blocks_ok_def)
  have res: "ModelStack_predict_joint C st (self) qp = Inr (mean, cov)"
    using coll mean(1) cov by (simp add: ModelStack_predict_joint_def models)
  have rows: "\<forall>i<n. chop n (sum_list ?es * (B * B)) (elems cov) ! i
                 = concat (map2 (\<lambda>e mc. chop n (e * (B * B)) (elems (snd mc)) ! i) ?es preds)"
  proof (intro allI impI)
    fix i assume "i < n"
    from zip_append_nth [OF blocks this]
    have "zip_append n rss ! i = concat (map (\<lambda>rs. rs ! i) rss)" .
    also have "map (\<lambda>rs. rs ! i) rss
                 = map2 (\<lambda>e mc. chop n (e * (B * B)) (elems (snd mc)) ! i) ?es preds"
      unfolding rss_def by (auto simp: zip_map2 simp del: list.map)
    finally show "chop n (sum_list ?es * (B * B)) (elems cov) ! i
                 = concat (map2 (\<lambda>e mc. chop n (e * (B * B)) (elems (snd mc)) ! i) ?es preds)"
      unfolding chop .
  qed
  have "shape cov = lead @ [sum_list ?es, B, B]" by (simp add: cov_def)
  with res mean(2,3) rows show ?thesis unfolding n_def by blast
qed

text \<open>
  C2.  When every constituent answers \<^verbatim>\<open>predict\<close> with a well-formed mean and variance
  of shape \<open>lead @ [E_i]\<close> (its event size on the trailing axis, the leading axes shared),
  \<^verbatim>\<open>ModelStack.predict\<close> returns a mean and a variance of shape \<open>lead @ [sum(E_i)]\<close>, and
  cutting each of them along the trailing axis into chunks of sizes \<open>E_1..E_n\<close> (with
  \<^verbatim>\<open>tf.split\<close>, or column slice by column slice) gives back the constituents' own means
  and variances, in constructor order.  The event sizes are integers and the dimensions
  of a shape natural numbers; the shapes are compared as lists of integers.
\<close>

theorem ModelStack_predict_concat_roundtrip:
  assumes "list_all2 (\<lambda>me mv. predict C (st (fst me)) qp = Inr mv
              \<and> wf_tensor (fst mv) \<and> map int (shape (fst mv)) = map int lead @ [snd me]
              \<and> wf_tensor (snd mv) \<and> map int (shape (snd mv)) = map int lead @ [snd me])
            (p # ps) preds"
  shows "\<exists>mean var.
           ModelStack_predict C st (ModelStack_init p ps) qp = Inr (mean, var)
         \<and> map int (shape mean) = map int lead @ [sum_list (map snd (p # ps))]
         \<and> map int (shape var) = map int lead @ [sum_list (map snd (p # ps))]
         \<and> tf_split mean (map snd (p # ps)) = Inr (map fst preds)
         \<and> tf_split var (map snd (p # ps)) = Inr (map snd preds)
         \<and> (\<forall>i<length preds.
               slice_cols mean (nat (sum_list (take i (map snd (p # ps)))))
                               (nat (sum_list (take (Suc i) (map snd (p # ps))))) = fst (preds ! i)
             \<and> slice_cols var (nat (sum_list (take i (map snd (p # ps)))))
                              (nat (sum_list (take (Suc i) (map snd (p # ps))))) = snd (preds ! i))"
proof -
  define pairs where "pairs = map (\<lambda>me. (fst me, nat (snd me))) (p # ps)"
  let ?ns = "map snd pairs"
  have ne: "pairs \<noteq> []" by (simp add: pairs_def)
  have models: "stack_models (ModelStack_init p ps) = map fst pairs"
    by (simp add: ModelStack_init_def pairs_def Let_def o_def)
  have "list_all2 (\<lambda>me mv. 0 \<le> snd me) (p # ps) preds"
    using assms
  proof (rule list_all2_mono)
    fix me mv
    assume "predict C (st (fst me)) qp = Inr mv
              \<and> wf_tensor (fst mv) \<and> map int (shape (fst mv)) = map int lead @ [snd me]
              \<and> wf_tensor (snd mv) \<and> map int (shape (snd mv)) = map int lead @ [snd me]"
    then have "map int (shape (fst mv)) = map int lead @ [snd me]" by blast
    then show "0 \<le> snd me" by (rule trailing_int(2))
  qed
  then have "\<forall>me\<in>set (p # ps). 0 \<le> snd me" by (rule list_all2_left)
  then have "\<forall>e\<in>set (map snd (p # ps)). 0 \<le> e" by auto
  then have "map int (map nat (map snd (p # ps))) = map snd (p # ps)" by (rule nonneg_are_nat)
  then have es: "map int ?ns = map snd (p # ps)" by (simp add: pairs_def o_def)
  have sums: "nat (sum_list (take k (map snd (p # ps)))) = sum_list (take k ?ns)" for k
  proof -
    have "take k (map snd (p # ps)) = map int (take k ?ns)"
      unfolding es [symmetric] by (rule take_map)
    then show ?thesis by (simp only: sum_list_int nat_int)
  qed
  have total: "sum_list (map snd (p # ps)) = int (sum_list ?ns)"
    unfolding es [symmetric] by (rule sum_list_int)
  have preds: "list_all2 (\<lambda>me mv. predict C (st (fst me)) qp = Inr mv
              \<and> wf_tensor (fst mv) \<and> shape (fst mv) = lead @ [snd me]
              \<and> wf_tensor (snd mv) \<and> shape (snd mv) = lead @ [snd me]) pairs preds"
    unfolding pairs_def list_all2_map1 using assms
  proof (rule list_all2_mono)
    fix me mv
    assume a: "predict C (st (fst me)) qp = Inr mv
              \<and> wf_tensor (fst mv) \<and> map int (shape (fst mv)) = map int lead @ [snd me]
              \<and> wf_tensor (snd mv) \<and> map int (shape (snd mv)) = map int lead @ [snd me]"
    then have "shape (fst mv) = lead @ [nat (snd me)]" and "shape (snd mv) = lead @ [nat (snd me)]"
      by (blast intro: trailing_int(1))+
    with a show "predict C (st (fst (fst me, nat (snd me)))) qp = Inr mv
              \<and> wf_tensor (fst mv) \<and> shape (fst mv) = lead @ [snd (fst me, nat (snd me))]
              \<and> wf_tensor (snd mv) \<and> shape (snd mv) = lead @ [snd (fst me, nat (snd me))]"
      by simp
  qed
  from predict_concat_core [OF ne models preds] obtain mean var where
    r: "ModelStack_predict C st (ModelStack_init p ps) qp = Inr (mean, var)"
       "shape mean = lead @ [sum_list ?ns]" "shape var = lead @ [sum_list ?ns]"
       "tf_split mean (map int ?ns) = Inr (map fst preds)"
       "tf_split var (map int ?ns) = Inr (map snd preds)"
       "\<forall>i<length preds.
               slice_cols mean (sum_list (take i ?ns)) (sum_list (take (Suc i) ?ns)) = fst (preds ! i)
             \<and> slice_cols var (sum_list (take i ?ns)) (sum_list (take (Suc i) ?ns)) = snd (preds ! i)"
    by blast
  have "map int (shape mean) = map int lead @ [sum_list (map snd (p # ps))]"
    and "map int (shape var) = map int lead @ [sum_list (map snd (p # ps))]"
    unfolding r(2,3) total by simp_all
  with r show ?thesis unfolding sums es by blast
qed

theorem ModelStack_predict_concat_roundtrip_witness:
  "ModelStack_predict canned marginal_store (ModelStack_init (0, 1) [(1, 2)]) example_points
     = Inr (\<lparr>shape = [2, 3], elems = [10, 1, 2, 20, 3, 4]\<rparr>,
            \<lparr>shape = [2, 3], elems = [1, 5, 6, 2, 7, 8]\<rparr>)
   \<and> tf_split \<lparr>shape = [2, 3], elems = [10, 1, 2, 20, 3, 4 :: int]\<rparr> [1, 2]
       = Inr [\<lparr>shape = [2, 1], elems = [10, 20]\<rparr>, \<lparr>shape = [2, 2], elems = [1, 2, 3, 4]\<rparr>]
   \<and> tf_split \<lparr>shape = [2, 3], elems = [1, 5, 6, 2, 7, 8 :: int]\<rparr> [1, 2]
       = Inr [\<lparr>shape = [2, 1], elems = [1, 2]\<rparr>, \<lparr>shape = [2, 2], elems = [5, 6, 7, 8]\<rparr>]"
proof -
  let ?preds = "[fst (marginal_store 0), fst (marginal_store 1)]"
  have h: "list_all2 (\<lambda>me mv. predict canned (marginal_store (fst me)) example_points = Inr mv
              \<and> wf_tensor (fst mv) \<and> map int (shape (fst mv)) = map int [2] @ [snd me]
              \<and> wf_tensor (snd mv) \<and> map int (shape (snd mv)) = map int [2] @ [snd me]) ((0, 1) # [(1, 2)]) ?preds"
    by (simp add: canned_def marginal_store_def wf_tensor_def)
  have e: "ModelStack_predict canned marginal_store (ModelStack_init (0, 1) [(1, 2)]) example_points
     = Inr (\<lparr>shape = [2, 3], elems = [10, 1, 2, 20, 3, 4]\<rparr>,
            \<lparr>shape = [2, 3], elems = [1, 5, 6, 2, 7, 8]\<rparr>)"
    by (simp add: example_defs)
  from ModelStack_predict_concat_roundtrip [OF h] obtain mean var where
    r: "ModelStack_predict canned marginal_store (ModelStack_init (0, 1) [(1, 2)]) example_points
          = Inr (mean, var)"
       "tf_split mean (map snd [(0::nat, 1::int), (1, 2)]) = Inr (map fst ?preds)"
       "tf_split var (map snd [(0::nat, 1::int), (1, 2)]) = Inr (map snd ?preds)"
    by blast
  from r(1) e have "mean = \<lparr>shape = [2, 3], elems = [10, 1, 2, 20, 3, 4]\<rparr>"
    and "var = \<lparr>shape = [2, 3], elems = [1, 5, 6, 2, 7, 8]\<rparr>" by simp_all
  with r(2,3) e show ?thesis by (simp add: marginal_store_def)
qed
text \<open>
  C6, as the spec words it, fails: \<^verbatim>\<open>predict_joint\<close> does not stack the constituents'
  covariances along a new leading axis.  Two constituents with covariances of shape
  \<open>[1, 2, 2]\<close> give a covariance of shape \<open>[2, 2, 2]\<close>, where stacking would give
  \<open>[2, 1, 2, 2]\<close>.
\<close>

theorem predict_joint_new_axis_counterexample:
  "ModelStack_predict_joint canned joint_store (ModelStack_init (0, 1) [(2, 1)]) example_points
     = Inr (\<lparr>shape = [2, 2], elems = [10, 30, 20, 40]\<rparr>,
            \<lparr>shape = [2, 2, 2], elems = [1, 2, 3, 4, 13, 14, 15, 16]\<rparr>)
   \<and> stack_new_axis [snd (fst (joint_store 0)), snd (fst (joint_store 2))]
     = Inr \<lparr>shape = [2, 1, 2, 2], elems = [1, 2, 3, 4, 13, 14, 15, 16]\<rparr>
   \<and> map_sum id snd
        (ModelStack_predict_joint canned joint_store (ModelStack_init (0, 1) [(2, 1)]) example_points)
     \<noteq> stack_new_axis [snd (fst (joint_store 0)), snd (fst (joint_store 2))]"
  by (simp add: example_defs)

text \<open>
  C6, amended.  When every constituent answers \<^verbatim>\<open>predict_joint\<close> with a well-formed mean
  of shape \<open>lead @ [B, E_i]\<close> and covariance of shape \<open>lead @ [E_i, B, B]\<close>,
  \<^verbatim>\<open>ModelStack.predict_joint\<close> returns the means concatenated along the trailing (event)
  axis in constructor order, and the covariances concatenated along their existing event
  axis, the third from last: the shape is \<open>lead @ [sum(E_i), B, B]\<close>, of the same rank as
  each constituent's, and under each leading index the \<open>B \<times> B\<close> blocks of the
  constituents follow one another in constructor order.  No dense joint covariance across
  models is built.  The event sizes are integers and the dimensions of a shape natural
  numbers; the shapes are compared as lists of integers.
\<close>

theorem ModelStack_predict_joint_concat:
  assumes "list_all2 (\<lambda>me mc. predict_joint C (st (fst me)) qp = Inr mc
              \<and> wf_tensor (fst mc)
              \<and> map int (shape (fst mc)) = map int (lead @ [B]) @ [snd me]
              \<and> wf_tensor (snd mc)
              \<and> map int (shape (snd mc)) = map int lead @ [snd me, int B, int B])
            (p # ps) preds"
  shows "\<exists>mean cov.
           ModelStack_predict_joint C st (ModelStack_init p ps) qp = Inr (mean, cov)
         \<and> map int (shape mean) = map int (lead @ [B]) @ [sum_list (map snd (p # ps))]
         \<and> tf_split mean (map snd (p # ps)) = Inr (map fst preds)
         \<and> map int (shape cov) = map int lead @ [sum_list (map snd (p # ps)), int B, int B]
         \<and> (\<forall>i<prod_list lead.
               chop (prod_list lead) (nat (sum_list (map snd (p # ps))) * (B * B)) (elems cov) ! i
                 = concat (map2 (\<lambda>e mc. chop (prod_list lead) (nat e * (B * B)) (elems (snd mc)) ! i)
                             (map snd (p # ps)) preds))"
proof -
  define pairs where "pairs = map (\<lambda>me. (fst me, nat (snd me))) (p # ps)"
  let ?ns = "map snd pairs"
  have ne: "pairs \<noteq> []" by (simp add: pairs_def)
  have models: "stack_models (ModelStack_init p ps) = map fst pairs"
    by (simp add: ModelStack_init_def pairs_def Let_def o_def)
  have "list_all2 (\<lambda>me mv. 0 \<le> snd me) (p # ps) preds"
    using assms
  proof (rule list_all2_mono)
    fix me mc
    assume "predict_joint C (st (fst me)) qp = Inr mc
              \<and> wf_tensor (fst mc)
              \<and> map int (shape (fst mc)) = map int (lead @ [B]) @ [snd me]
              \<and> wf_tensor (snd mc)
              \<and> map int (shape (snd mc)) = map int lead @ [snd me, int B, int B]"
    then have "map int (shape (fst mc)) = map int (lead @ [B]) @ [snd me]" by blast
    then show "0 \<le> snd me" by (rule trailing_int(2))
  qed
  then have "\<forall>me\<in>set (p # ps). 0 \<le> snd me" by (rule list_all2_left)
  then have "\<forall>e\<in>set (map snd (p # ps)). 0 \<le> e" by auto
  then have "map int (map nat (map snd (p # ps))) = map snd (p # ps)" by (rule nonneg_are_nat)
  then have es: "map int ?ns = map snd (p # ps)" by (simp add: pairs_def o_def)
  have total: "sum_list (map snd (p # ps)) = int (sum_list ?ns)"
    unfolding es [symmetric] by (rule sum_list_int)
  have cov_shape: "s = lead @ [nat e, B, B]"
    if "map int s = map int lead @ [e, int B, int B]" for s e
  proof -
    from that have "map int s = map int (lead @ [nat e, B, B]) \<and> 0 \<le> e"
      by (auto simp: map_eq_append_conv map_eq_Cons_conv)
    then show ?thesis by (simp del: map_append list.map)
  qed
  have preds: "list_all2 (\<lambda>me mc. predict_joint C (st (fst me)) qp = Inr mc
              \<and> wf_tensor (fst mc) \<and> shape (fst mc) = lead @ [B, snd me]
              \<and> wf_tensor (snd mc) \<and> shape (snd mc) = lead @ [snd me, B, B]) pairs preds"
    unfolding pairs_def list_all2_map1 using assms
  proof (rule list_all2_mono)
    fix me mc
    assume a: "predict_joint C (st (fst me)) qp = Inr mc
              \<and> wf_tensor (fst mc)
              \<and> map int (shape (fst mc)) = map int (lead @ [B]) @ [snd me]
              \<and> wf_tensor (snd mc)
              \<and> map int (shape (snd mc)) = map int lead @ [snd me, int B, int B]"
    then have "shape (fst mc) = (lead @ [B]) @ [nat (snd me)]"
      by (blast intro: trailing_int(1))
    moreover from a have "shape (snd mc) = lead @ [nat (snd me), B, B]"
      by (blast intro: cov_shape)
    ultimately show "predict_joint C (st (fst (fst me, nat (snd me)))) qp = Inr mc
              \<and> wf_tensor (fst mc) \<and> shape (fst mc) = lead @ [B, snd (fst me, nat (snd me))]
              \<and> wf_tensor (snd mc) \<and> shape (snd mc) = lead @ [snd (fst me, nat (snd me)), B, B]"
      using a by simp
  qed
  from predict_joint_concat_core [OF ne models preds] obtain mean cov where
    r: "ModelStack_predict_joint C st (ModelStack_init p ps) qp = Inr (mean, cov)"
       "shape mean = lead @ [B, sum_list ?ns]"
       "tf_split mean (map int ?ns) = Inr (map fst preds)"
       "shape cov = lead @ [sum_list ?ns, B, B]"
       "\<forall>i<prod_list lead.
               chop (prod_list lead) (sum_list ?ns * (B * B)) (elems cov) ! i
                 = concat (map2 (\<lambda>e mc. chop (prod_list lead) (e * (B * B)) (elems (snd mc)) ! i)
                             ?ns preds)"
    by blast
  have blocks: "map2 (\<lambda>e mc. chop (prod_list lead) (e * (B * B)) (elems (snd mc)) ! i) ?ns preds
       = map2 (\<lambda>e mc. chop (prod_list lead) (nat e * (B * B)) (elems (snd mc)) ! i)
           (map snd (p # ps)) preds" for i
    unfolding pairs_def by (simp add: zip_map1 o_def split_beta del: list.map)
  have "map int (shape mean) = map int (lead @ [B]) @ [sum_list (map snd (p # ps))]"
    and "map int (shape cov) = map int lead @ [sum_list (map snd (p # ps)), int B, int B]"
    and "nat (sum_list (map snd (p # ps))) = sum_list ?ns"
    unfolding r(2,4) total by simp_all
  with r(1,3,5) show ?thesis unfolding es blocks by auto
qed

theorem ModelStack_predict_joint_concat_witness:
  "ModelStack_predict_joint canned joint_store (ModelStack_init (0, 1) [(1, 2)]) example_points
     = Inr (\<lparr>shape = [2, 3], elems = [10, 1, 2, 20, 3, 4]\<rparr>,
            \<lparr>shape = [3, 2, 2], elems = [1, 2, 3, 4, 5, 6, 7, 8, 9, 10, 11, 12]\<rparr>)"
proof -
  let ?preds = "[fst (joint_store 0), fst (joint_store 1)]"
  have h: "list_all2 (\<lambda>me mc. predict_joint canned (joint_store (fst me)) example_points = Inr mc
              \<and> wf_tensor (fst mc) \<and> map int (shape (fst mc)) = map int ([] @ [2]) @ [snd me]
              \<and> wf_tensor (snd mc) \<and> map int (shape (snd mc)) = map int [] @ [snd me, int 2, int 2]) ((0, 1) # [(1, 2)]) ?preds"
    by (simp add: canned_def joint_store_def wf_tensor_def)
  have e: "ModelStack_predict_joint canned joint_store (ModelStack_init (0, 1) [(1, 2)]) example_points
     = Inr (\<lparr>shape = [2, 3], elems = [10, 1, 2, 20, 3, 4]\<rparr>,
            \<lparr>shape = [3, 2, 2], elems = [1, 2, 3, 4, 5, 6, 7, 8, 9, 10, 11, 12]\<rparr>)"
    by (simp add: example_defs)
  from ModelStack_predict_joint_concat [OF h] e show ?thesis by simp
qed

section \<open>Model wrappers: the dimension check\<close>

lemma assert_ok_iff:
  "ranked new_data \<Longrightarrow> ranked existing_data \<Longrightarrow>
     (assert_data_is_compatible new_data existing_data = Inr u) = dims_match new_data existing_data"
  by (auto simp: assert_data_is_compatible_def trailing_def ranked_def dims_match_def)

lemma assert_query_mismatch:
  "ranked new_data \<Longrightarrow> ranked existing_data \<Longrightarrow>
   last (shape (query_points new_data)) \<noteq> last (shape (query_points existing_data)) \<Longrightarrow>
     \<exists>msg. assert_data_is_compatible new_data existing_data = Inl (ValueError msg)
        \<and> Shp (shape (query_points new_data)) \<in> set msg
        \<and> Shp (shape (query_points existing_data)) \<in> set msg"
  by (simp add: assert_data_is_compatible_def trailing_def ranked_def)

lemma assert_observation_mismatch:
  "ranked new_data \<Longrightarrow> ranked existing_data \<Longrightarrow>
   last (shape (query_points new_data)) = last (shape (query_points existing_data)) \<Longrightarrow>
   last (shape (observations new_data)) \<noteq> last (shape (observations existing_data)) \<Longrightarrow>
     \<exists>msg. assert_data_is_compatible new_data existing_data = Inl (ValueError msg)
        \<and> Shp (shape (observations new_data)) \<in> set msg
        \<and> Shp (shape (observations existing_data)) \<in> set msg"
  by (simp add: assert_data_is_compatible_def trailing_def ranked_def)

text \<open>Any update that runs the guard first, and returns the untouched object with the
  guard's exception when it raises, checks dimensions.\<close>

lemma guard_first_checks:
  assumes r: "ranked new_data" "ranked existing_data"
    and fail: "\<And>e. assert_data_is_compatible new_data existing_data = Inl e \<Longrightarrow> res = (Some e, self)"
  shows "checks_dimensions res self new_data existing_data"
proof -
  have a: "fst res = None \<Longrightarrow> dims_match new_data existing_data"
  proof -
    assume none: "fst res = None"
    show ?thesis
    proof (cases "assert_data_is_compatible new_data existing_data")
      case (Inl e)
      from fail [OF this] none show ?thesis by simp
    next
      case (Inr u)
      with assert_ok_iff [OF r] show ?thesis by simp
    qed
  qed
  have b: "mismatch_reported res self (shape (query_points new_data)) (shape (query_points existing_data))"
    if "last (shape (query_points new_data)) \<noteq> last (shape (query_points existing_data))"
    using assert_query_mismatch [OF r that] fail by (auto simp: mismatch_reported_def)
  have c: "mismatch_reported res self (shape (observations new_data)) (shape (observations existing_data))"
    if "last (shape (query_points new_data)) = last (shape (query_points existing_data))"
      and "last (shape (observations new_data)) \<noteq> last (shape (observations existing_data))"
    using assert_observation_mismatch [OF r that] fail by (auto simp: mismatch_reported_def)
  from a b c show ?thesis unfolding checks_dimensions_def by blast
qed

lemma GPR_update_cases:
  "GaussianProcessRegression_update self dataset =
     (case assert_data_is_compatible dataset
             \<lparr>query_points = fst (data self), observations = snd (data self)\<rparr> of
        Inl e \<Rightarrow> (Some e, self)
      | Inr _ \<Rightarrow> (None, self\<lparr>data := (query_points dataset, observations dataset)\<rparr>))"
  by (auto simp: GaussianProcessRegression_update_def assert_data_is_compatible_def trailing_def
        Let_def split: sum.splits if_splits)

text \<open>
  C9.  For datasets whose tensors have a trailing axis: an update of any of the four
  wrappers succeeds only if the trailing dimensions of the new query points and
  observations equal those of the data the wrapper holds; otherwise it raises a
  \<^verbatim>\<open>ValueError\<close> whose message carries both the new and the existing shape, and the wrapper
  is as it was.  For \<^verbatim>\<open>GaussianProcessRegression\<close>, matching dimensions are also enough:
  the update then succeeds and replaces the data.
\<close>

theorem update_checks_dimensions:
  "ranked dataset \<Longrightarrow> ranked existing \<Longrightarrow>
     (data gpr = (query_points existing, observations existing) \<longrightarrow>
        checks_dimensions (GaussianProcessRegression_update gpr dataset) gpr dataset existing
        \<and> (dims_match dataset existing \<longrightarrow>
             GaussianProcessRegression_update gpr dataset
               = (None, gpr\<lparr>data := (query_points dataset, observations dataset)\<rparr>)))
   \<and> (sv_data sv = existing \<longrightarrow>
        checks_dimensions (SparseVariational_update sv dataset) sv dataset existing)
   \<and> (model_data vgp = (query_points existing, observations existing) \<longrightarrow>
        checks_dimensions (VariationalGaussianProcess_update model_data refit vgp dataset)
          vgp dataset existing)
   \<and> (flux_data flux = existing \<longrightarrow>
        checks_dimensions (GPFluxModel_update flux_data reinit flux dataset) flux dataset existing)"
proof (intro conjI impI)
  assume r: "ranked dataset" "ranked existing"
  {
    assume d: "data gpr = (query_points existing, observations existing)"
    then have ex: "\<lparr>query_points = fst (data gpr), observations = snd (data gpr)\<rparr> = existing"
      by simp
    show "checks_dimensions (GaussianProcessRegression_update gpr dataset) gpr dataset existing"
      by (rule guard_first_checks [OF r]) (simp add: GPR_update_cases ex)
    assume "dims_match dataset existing"
    with assert_ok_iff [OF r, of "()"] have "assert_data_is_compatible dataset existing = Inr ()"
      by simp
    then show "GaussianProcessRegression_update gpr dataset
               = (None, gpr\<lparr>data := (query_points dataset, observations dataset)\<rparr>)"
      by (simp add: GPR_update_cases ex)
  }
  {
    assume "sv_data sv = existing"
    then show "checks_dimensions (SparseVariational_update sv dataset) sv dataset existing"
      by (intro guard_first_checks [OF r]) (simp add: SparseVariational_update_def)
  }
  {
    assume "model_data vgp = (query_points existing, observations existing)"
    then have "\<lparr>query_points = fst (model_data vgp), observations = snd (model_data vgp)\<rparr> = existing"
      by simp
    then show "checks_dimensions (VariationalGaussianProcess_update model_data refit vgp dataset)
          vgp dataset existing"
      by (intro guard_first_checks [OF r]) (simp add: VariationalGaussianProcess_update_def)
  }
  {
    assume "flux_data flux = existing"
    then show "checks_dimensions (GPFluxModel_update flux_data reinit flux dataset) flux dataset existing"
      by (intro guard_first_checks [OF r]) (simp add: GPFluxModel_update_def)
  }
qed

theorem update_checks_dimensions_witness:
  "ranked wide_dataset \<and> ranked held_data
   \<and> GaussianProcessRegression_update gpr_example wide_dataset
       = (Some (ValueError
            [Txt ''Shape '', Shp [1, 3], Txt '' of new query points is incompatible with'',
             Txt '' shape '', Shp [3, 2], Txt '' of existing query points. Trailing'',
             Txt '' dimensions must match.'']), gpr_example)
   \<and> mismatch_reported (GaussianProcessRegression_update gpr_example wide_dataset) gpr_example
       [1, 3] [3, 2]
   \<and> mismatch_reported
       (SparseVariational_update \<lparr>sv_data = held_data, sv_num_data = 3\<rparr> wide_dataset)
       \<lparr>sv_data = held_data, sv_num_data = 3\<rparr> [1, 3] [3, 2]
   \<and> mismatch_reported
       (VariationalGaussianProcess_update (\<lambda>s. (query_points s, observations s))
          (\<lambda>s d. (None, d)) held_data wide_dataset) held_data [1, 3] [3, 2]
   \<and> mismatch_reported
       (GPFluxModel_update (\<lambda>s. s) (\<lambda>s d. (None, d)) held_data wide_dataset) held_data
       [1, 3] [3, 2]
   \<and> GaussianProcessRegression_update gpr_example fitting_dataset
       = (None, \<lparr>data = (query_points fitting_dataset, observations fitting_dataset)\<rparr>)"
proof -
  have r: "ranked wide_dataset" "ranked fitting_dataset" "ranked held_data"
    by (simp_all add: ranked_def wide_dataset_def fitting_dataset_def held_data_def)
  have shapes: "shape (query_points wide_dataset) = [1, 3]"
    "shape (query_points held_data) = [3, 2]"
    by (simp_all add: wide_dataset_def held_data_def)
  have ne: "last (shape (query_points wide_dataset)) \<noteq> last (shape (query_points held_data))"
    by (simp add: shapes)
  have m: "dims_match fitting_dataset held_data"
    by (simp add: dims_match_def fitting_dataset_def held_data_def)
  have d: "data gpr_example = (query_points held_data, observations held_data)"
    by (simp add: gpr_example_def)
  have e: "GaussianProcessRegression_update gpr_example wide_dataset
       = (Some (ValueError
            [Txt ''Shape '', Shp [1, 3], Txt '' of new query points is incompatible with'',
             Txt '' shape '', Shp [3, 2], Txt '' of existing query points. Trailing'',
             Txt '' dimensions must match.'']), gpr_example)"
    by (simp add: GaussianProcessRegression_update_def assert_data_is_compatible_def trailing_def
          gpr_example_def wide_dataset_def held_data_def)
  from update_checks_dimensions [OF r(1) r(3), of gpr_example
         "\<lparr>sv_data = held_data, sv_num_data = 3\<rparr>" "\<lambda>s. (query_points s, observations s)" held_data
         "\<lambda>s d. (None, d)" "\<lambda>s. s" held_data "\<lambda>s d. (None, d)"] d ne
  have w: "mismatch_reported (GaussianProcessRegression_update gpr_example wide_dataset) gpr_example
       [1, 3] [3, 2]
   \<and> mismatch_reported
       (SparseVariational_update \<lparr>sv_data = held_data, sv_num_data = 3\<rparr> wide_dataset)
       \<lparr>sv_data = held_data, sv_num_data = 3\<rparr> [1, 3] [3, 2]
   \<and> mismatch_reported
       (VariationalGaussianProcess_update (\<lambda>s. (query_points s, observations s))
          (\<lambda>s d. (None, d)) held_data wide_dataset) held_data [1, 3] [3, 2]
   \<and> mismatch_reported
       (GPFluxModel_update (\<lambda>s. s) (\<lambda>s d. (None, d)) held_data wide_dataset) held_data
       [1, 3] [3, 2]"
    by (simp add: checks_dimensions_def shapes)
  from update_checks_dimensions [OF r(2) r(3), THEN conjunct1, of gpr_example] d m
  have f: "GaussianProcessRegression_update gpr_example fitting_dataset
       = (None, \<lparr>data = (query_points fitting_dataset, observations fitting_dataset)\<rparr>)"
    by (simp add: gpr_example_def)
  from r e w f show ?thesis by blast
qed

text \<open>
  C10.  \<^verbatim>\<open>GaussianProcessRegression.update\<close> never raises the bare \<^verbatim>\<open>ValueError\<close> of its two
  re-checks: the exceptions it raises are exactly those of \<^verbatim>\<open>_assert_data_is_compatible\<close>
  on the new dataset and the held data, so a dimension mismatch always comes with the
  guard's message.
\<close>

theorem bare_ValueError_unreachable:
  "fst (GaussianProcessRegression_update self dataset) \<noteq> Some (ValueError [])
   \<and> (\<forall>e. (fst (GaussianProcessRegression_update self dataset) = Some e)
           = (assert_data_is_compatible dataset
                \<lparr>query_points = fst (data self), observations = snd (data self)\<rparr> = Inl e))"
proof -
  have "assert_data_is_compatible dataset
          \<lparr>query_points = fst (data self), observations = snd (data self)\<rparr> \<noteq> Inl (ValueError [])"
    by (simp add: assert_data_is_compatible_def trailing_def split: sum.splits)
  then show ?thesis
    by (auto simp: GPR_update_cases split: sum.splits)
qed

theorem bare_ValueError_unreachable_witness:
  "fst (GaussianProcessRegression_update gpr_example wide_dataset) \<noteq> Some (ValueError [])
   \<and> assert_data_is_compatible wide_dataset held_data
       = Inl (ValueError
            [Txt ''Shape '', Shp [1, 3], Txt '' of new query points is incompatible with'',
             Txt '' shape '', Shp [3, 2], Txt '' of existing query points. Trailing'',
             Txt '' dimensions must match.''])"
proof -
  have e: "fst (GaussianProcessRegression_update gpr_example wide_dataset)
       = Some (ValueError
            [Txt ''Shape '', Shp [1, 3], Txt '' of new query points is incompatible with'',
             Txt '' shape '', Shp [3, 2], Txt '' of existing query points. Trailing'',
             Txt '' dimensions must match.''])"
    by (simp add: GaussianProcessRegression_update_def assert_data_is_compatible_def trailing_def
          gpr_example_def wide_dataset_def held_data_def)
  have h: "\<lparr>query_points = fst (data gpr_example), observations = snd (data gpr_example)\<rparr> = held_data"
    by (simp add: gpr_example_def)
  from bare_ValueError_unreachable [of gpr_example wide_dataset] e h show ?thesis by auto
qed

end
